theory Spec2Isabelle
  imports Main "HOL-Library.Word"
begin

unbundle bit_operations_syntax

section \<open>GNU diff: the driver of \<open>src/diff.c\<close>\<close>

text \<open>
  This theory embeds the two functions of \<open>diff.c\<close> that decide what is compared and
  what the process exits with: \<open>compare_files\<close> (lines 1051-1381) and the tail of
  \<open>main\<close> (lines 723-787). System calls and the functions that live in other
  translation units (\<open>diff_dirs\<close>, \<open>diff_2_files\<close>, the gnulib file-name helpers) are
  fields of an environment record; everything \<open>compare_files\<close> writes or calls is
  recorded, in order, in a trace of events.
\<close>

subsection \<open>Exit statuses and descriptor markers\<close>

definition EXIT_SUCCESS :: int where "EXIT_SUCCESS = 0"
definition EXIT_FAILURE :: int where "EXIT_FAILURE = 1"
definition EXIT_TROUBLE :: int where "EXIT_TROUBLE = 2"

text \<open>\<open>cmp.file[f].desc\<close> markers (lines 1085-1089).\<close>

definition NONEXISTENT :: int where "NONEXISTENT = - 1"
definition UNOPENED :: int where "UNOPENED = - 2"
definition ERRNO_ENCODE :: "nat \<Rightarrow> int" where "ERRNO_ENCODE e = - 3 - int e"
definition ERRNO_DECODE :: "int \<Rightarrow> int" where "ERRNO_DECODE d = - 3 - d"

definition STDIN_FILENO :: int where "STDIN_FILENO = 0"
definition ENOENT :: nat where "ENOENT = 2"
definition EBADF :: nat where "EBADF = 9"

subsection \<open>File metadata\<close>

text \<open>
  \<open>struct stat\<close>, with the fields the driver reads. \<open>st_mode\<close> is a 32-bit
  \<open>mode_t\<close>; the type bits and the permission mask have their Linux values. Sizes and
  offsets are never negative in a successful \<open>stat\<close> or \<open>lseek\<close>, so \<open>off_t\<close> values
  are natural numbers here.
\<close>

type_synonym mode_t = "32 word"

record stat =
  st_dev :: nat
  st_ino :: nat
  st_mode :: mode_t
  st_uid :: nat
  st_gid :: nat
  st_size :: nat
  st_mtime :: nat

definition S_IFMT :: mode_t where "S_IFMT = 0xF000"
definition S_IFDIR :: mode_t where "S_IFDIR = 0x4000"
definition S_IFREG :: mode_t where "S_IFREG = 0x8000"
definition S_IFLNK :: mode_t where "S_IFLNK = 0xA000"

text \<open>\<open>S_IRWXU | S_IRWXG | S_IRWXO\<close>\<close>

definition S_IRWXUGO :: mode_t where "S_IRWXUGO = 0x1FF"

definition S_ISDIR :: "mode_t \<Rightarrow> bool" where "S_ISDIR m = (m AND S_IFMT = S_IFDIR)"
definition S_ISREG :: "mode_t \<Rightarrow> bool" where "S_ISREG m = (m AND S_IFMT = S_IFREG)"
definition S_ISLNK :: "mode_t \<Rightarrow> bool" where "S_ISLNK m = (m AND S_IFMT = S_IFLNK)"

text \<open>\<open>memset (&st, 0, sizeof st)\<close>\<close>

definition zero_stat :: stat where
  "zero_stat = \<lparr>st_dev = 0, st_ino = 0, st_mode = 0, st_uid = 0, st_gid = 0,
                 st_size = 0, st_mtime = 0\<rparr>"

text \<open>
  Modelled from the spec: the macros \<open>same_file\<close> and \<open>same_file_attributes\<close> of
  \<open>system.h\<close> are not under \<open>src/\<close>. The spec establishes the identity of two sides
  "purely from device+inode equality plus the attribute-equality policy
  (mode/size/owner)"; the owner is the owning user and group.
\<close>

definition same_file :: "stat \<Rightarrow> stat \<Rightarrow> int" where
  "same_file s t = (if st_ino s = st_ino t \<and> st_dev s = st_dev t then 1 else 0)"

definition same_file_attributes :: "stat \<Rightarrow> stat \<Rightarrow> bool" where
  "same_file_attributes s t =
     (st_mode s = st_mode t \<and> st_size s = st_size t
      \<and> st_uid s = st_uid t \<and> st_gid s = st_gid t)"

text \<open>
  Modelled from the spec: the macro \<open>file_name_cmp\<close> of \<open>system.h\<close> is not under
  \<open>src/\<close>. The spec calls the test a textual comparison of the two names, which is
  \<open>strcmp\<close>: zero for equal strings, otherwise the sign of the first differing byte.
\<close>

definition file_name_cmp :: "string \<Rightarrow> string \<Rightarrow> int" where
  "file_name_cmp a b =
     (if a = b then 0
      else if lexordp (\<lambda>c d. (of_char c :: nat) < of_char d) a b then - 1 else 1)"

subsection \<open>Comparisons, the environment and the configuration\<close>

text \<open>
  \<open>struct file_data\<close> and \<open>struct comparison\<close> (declared in \<open>diff.h\<close>), with the
  fields \<open>compare_files\<close> touches. \<open>file0\<close> and \<open>file1\<close> are \<open>file[0]\<close> and
  \<open>file[1]\<close>.
\<close>

record file_data =
  desc :: int
  name :: string
  stat :: stat

datatype comparison =
  Comparison (file0: file_data) (file1: file_data) (parent: "comparison option")

text \<open>\<open>parent->file[f].name\<close>\<close>

definition file_name_of :: "comparison \<Rightarrow> nat \<Rightarrow> string" where
  "file_name_of c f = (if f = 0 then name (file0 c) else name (file1 c))"

text \<open>What a call does, in the order it does it.\<close>

datatype event =
    Stat string
  | Lstat string
  | Fstat_stdin
  | Lseek_stdin
  | Set_binary_mode_stdin
  | Gettime
  | Perror_with_name string nat
  | Message string
  | Xreadlink string
  | Open_file string
  | Close_file int
  | Diff_dirs comparison
  | Diff_2_files comparison
  | Fflush_stdout

text \<open>
  The world outside \<open>diff.c\<close>. A failing system call is \<open>Inl errno\<close>. \<open>diff_dirs\<close>
  (\<open>dir.c\<close>) and \<open>diff_2_files\<close> (\<open>analyze.c\<close>) return an exit status, or end the
  process themselves with a fatal message (\<open>Inl\<close>).
\<close>

record env =
  sys_stat :: "string \<Rightarrow> nat + stat"
  sys_lstat :: "string \<Rightarrow> nat + stat"
  sys_fstat_stdin :: "nat + stat"
  sys_lseek_stdin :: "nat + nat"
  isatty_stdin :: bool
  gettime :: nat
  xreadlink :: "string \<Rightarrow> nat + string"
  sys_open :: "string \<Rightarrow> nat + nat"
  sys_close :: "int \<Rightarrow> nat option"
  sys_fflush_stdout :: "nat option"
  diff_dirs :: "comparison \<Rightarrow> string + nat"
  diff_2_files :: "comparison \<Rightarrow> string + nat"
  file_name_concat :: "string \<Rightarrow> string \<Rightarrow> string"
  find_dir_file_pathname :: "string \<Rightarrow> string \<Rightarrow> string"
  last_component :: "string \<Rightarrow> string"
  file_type :: "stat \<Rightarrow> string"
  ferror_stdout :: bool
  sys_fclose_stdout :: "nat option"

datatype output_style =
    OUTPUT_UNSPECIFIED | OUTPUT_NORMAL | OUTPUT_CONTEXT | OUTPUT_UNIFIED | OUTPUT_ED
  | OUTPUT_FORWARD_ED | OUTPUT_RCS | OUTPUT_IFDEF | OUTPUT_SDIFF

text \<open>
  The option variables of \<open>diff.c\<close> and \<open>diff.h\<close> that \<open>compare_files\<close> and the end
  of \<open>main\<close> read. \<open>ignore_regexps\<close> is \<open>ignore_regexp_list.regexps\<close>,
  \<open>ignore_white_space\<close> the value of the enumeration (0 is
  \<open>IGNORE_NO_WHITE_SPACE\<close>), \<open>group_format_UNCHANGED\<close> and \<open>line_format_UNCHANGED\<close>
  are \<open>group_format[UNCHANGED]\<close> and \<open>line_format[UNCHANGED]\<close>; a null pointer is
  \<open>None\<close>.
\<close>

record config =
  recursive :: bool
  binary :: bool
  new_file :: bool
  unidirectional_new_file :: bool
  report_identical_files :: bool
  no_dereference_symlinks :: bool
  output_style :: output_style
  file_label0 :: "string option"
  file_label1 :: "string option"
  brief :: bool
  ignore_blank_lines :: bool
  ignore_case :: bool
  strip_trailing_cr :: bool
  ignore_regexps :: "string option"
  ignore_white_space :: nat
  suppress_common_lines :: bool
  group_format_UNCHANGED :: "string option"
  line_format_UNCHANGED :: "string option"
  no_diff_means_no_output :: bool
  files_can_be_treated_as_binary :: bool

text \<open>How a call ends when it does not return.\<close>

datatype abort =
    Fatal string
  | Try_help string
  | Assertion_failed
  | Null_pointer

text \<open>
  The result of a call: the value returned (or the abort), and the trace. An abort by
  \<open>fatal\<close> leaves the process with \<open>exit_failure\<close>, which \<open>main\<close> sets to
  \<open>EXIT_TROUBLE\<close> (line 291).
\<close>

type_synonym result = "(abort + int) \<times> event list"

definition process_status :: "abort + int \<Rightarrow> int" where
  "process_status r = (case r of Inl a \<Rightarrow> EXIT_TROUBLE | Inr st \<Rightarrow> st)"

text \<open>
  The local state of \<open>compare_files\<close>: \<open>cmp.file[0]\<close>, \<open>cmp.file[1]\<close>, the local
  \<open>name0\<close> once it has been defaulted (line 1097), \<open>status\<close>, and the trace so far.
\<close>

record cf_state =
  f0 :: file_data
  f1 :: file_data
  name0 :: string
  status :: int
  events :: "event list"

definition cmp_file :: "cf_state \<Rightarrow> nat \<Rightarrow> file_data" where
  "cmp_file s f = (if f = 0 then f0 s else f1 s)"

definition set_file :: "nat \<Rightarrow> file_data \<Rightarrow> cf_state \<Rightarrow> cf_state" where
  "set_file f d s = (if f = 0 then s\<lparr>f0 := d\<rparr> else s\<lparr>f1 := d\<rparr>)"

definition emit :: "event list \<Rightarrow> cf_state \<Rightarrow> cf_state" where
  "emit es s = s\<lparr>events := events s @ es\<rparr>"

definition cmp_of :: "comparison option \<Rightarrow> cf_state \<Rightarrow> comparison" where
  "cmp_of par s = Comparison (f0 s) (f1 s) par"

definition DIR_P :: "cf_state \<Rightarrow> nat \<Rightarrow> bool" where
  "DIR_P s f = S_ISDIR (st_mode (stat (cmp_file s f)))"

definition NL :: string where "NL = [CHR 0x0A]"

text \<open>\<open>file_label[f] ? file_label[f] : cmp.file[f].name\<close>\<close>

definition label0 :: "config \<Rightarrow> cf_state \<Rightarrow> string" where
  "label0 C s = (case file_label0 C of Some l \<Rightarrow> l | None \<Rightarrow> name (f0 s))"

definition label1 :: "config \<Rightarrow> cf_state \<Rightarrow> string" where
  "label1 C s = (case file_label1 C of Some l \<Rightarrow> l | None \<Rightarrow> name (f1 s))"

definition quoted :: "string \<Rightarrow> string" where
  "quoted x = CHR 0x27 # x @ [CHR 0x27]"

subsection \<open>\<open>compare_files\<close>: names and resolution (lines 1067-1202)\<close>

text \<open>
  Lines 1067-1079: a file that exists in one directory only. \<open>parent->file[!name0]\<close>
  is dereferenced without a test, so a null \<open>parent\<close> (or a null name handed to
  \<open>message\<close>) ends the call with \<open>Null_pointer\<close>.
\<close>

definition only_in :: "comparison option \<Rightarrow> string option \<Rightarrow> string option \<Rightarrow> result" where
  "only_in par n0 n1 =
     (case par of
        None \<Rightarrow> (Inl Null_pointer, [])
      | Some p \<Rightarrow>
          (case (case n0 of Some a \<Rightarrow> Some a | None \<Rightarrow> n1) of
             None \<Rightarrow> (Inl Null_pointer, [])
           | Some nm \<Rightarrow>
               (Inr EXIT_FAILURE,
                [Message (''Only in '' @ file_name_of p (if n0 = None then 1 else 0)
                          @ '': '' @ nm @ NL)])))"

text \<open>
  Lines 1081-1111: the descriptors and the full names. With both names null and no
  parent, no name is read before the closing message of line 1367, and every step in
  between leaves the zeroed \<open>cmp\<close> as it is: the call returns \<open>EXIT_SUCCESS\<close> unless
  that message is due. With a parent, \<open>file_name_concat\<close> reads the null name.
\<close>

definition start :: "env \<Rightarrow> config \<Rightarrow> comparison option \<Rightarrow> string option \<Rightarrow> string option
    \<Rightarrow> result + cf_state" where
  "start E C par n0 n1 =
     (case (case n0 of Some a \<Rightarrow> Some a | None \<Rightarrow> n1) of
        None \<Rightarrow>
          (if par = None \<and> \<not> report_identical_files C then Inl (Inr EXIT_SUCCESS, [])
           else Inl (Inl Null_pointer, []))
      | Some a \<Rightarrow>
          (let b = (case n1 of Some b \<Rightarrow> b | None \<Rightarrow> a);
               d0 = (if n0 \<noteq> None then UNOPENED else NONEXISTENT);
               d1 = (if n1 \<noteq> None then UNOPENED else NONEXISTENT);
               full0 = (case par of None \<Rightarrow> a
                        | Some p \<Rightarrow> file_name_concat E (file_name_of p 0) a);
               full1 = (case par of None \<Rightarrow> b
                        | Some p \<Rightarrow> file_name_concat E (file_name_of p 1) b)
           in Inr \<lparr>f0 = \<lparr>desc = d0, name = full0, stat = zero_stat\<rparr>,
                   f1 = \<lparr>desc = d1, name = full1, stat = zero_stat\<rparr>,
                   name0 = a, status = EXIT_SUCCESS, events = []\<rparr>))"

definition compare_files_begin :: "env \<Rightarrow> config \<Rightarrow> comparison option \<Rightarrow> string option
    \<Rightarrow> string option \<Rightarrow> result + cf_state" where
  "compare_files_begin E C par n0 n1 =
     (if \<not> ((n0 \<noteq> None \<and> n1 \<noteq> None) \<or> (unidirectional_new_file C \<and> n1 \<noteq> None)
             \<or> new_file C)
      then Inl (only_in par n0 n1)
      else start E C par n0 n1)"

text \<open>Lines 1120-1139: standard input.\<close>

definition stat_stdin :: "env \<Rightarrow> config \<Rightarrow> nat \<Rightarrow> cf_state \<Rightarrow> cf_state" where
  "stat_stdin E C f s =
     (let d = (cmp_file s f)\<lparr>desc := STDIN_FILENO\<rparr>;
          ev = (if binary C \<and> \<not> isatty_stdin E then [Set_binary_mode_stdin] else [])
               @ [Fstat_stdin]
      in case sys_fstat_stdin E of
           Inl e \<Rightarrow> emit ev (set_file f (d\<lparr>desc := ERRNO_ENCODE e\<rparr>) s)
         | Inr st \<Rightarrow>
             (if S_ISREG (st_mode st) then
                (case sys_lseek_stdin E of
                   Inl e \<Rightarrow>
                     emit (ev @ [Lseek_stdin, Gettime])
                       (set_file f (d\<lparr>desc := ERRNO_ENCODE e,
                                      stat := st\<lparr>st_mtime := gettime E\<rparr>\<rparr>) s)
                 | Inr pos \<Rightarrow>
                     emit (ev @ [Lseek_stdin, Gettime])
                       (set_file f
                          (d\<lparr>stat := st\<lparr>st_size := (if st_size st \<le> pos then 0
                                                       else st_size st - pos),
                                          st_mtime := gettime E\<rparr>\<rparr>) s))
              else emit (ev @ [Gettime])
                     (set_file f (d\<lparr>stat := st\<lparr>st_mtime := gettime E\<rparr>\<rparr>) s)))"

text \<open>Lines 1115-1146: one turn of the loop that stats the files.\<close>

definition stat_file :: "env \<Rightarrow> config \<Rightarrow> nat \<Rightarrow> cf_state \<Rightarrow> cf_state" where
  "stat_file E C f s =
     (let d = cmp_file s f in
      if desc d \<noteq> NONEXISTENT then
        (if f \<noteq> 0 \<and> file_name_cmp (name d) (name (f0 s)) = 0 then
           set_file f (d\<lparr>desc := desc (f0 s), stat := stat (f0 s)\<rparr>) s
         else if name d = ''-'' then stat_stdin E C f s
         else if no_dereference_symlinks C then
           (case sys_lstat E (name d) of
              Inl e \<Rightarrow> emit [Lstat (name d)] (set_file f (d\<lparr>desc := ERRNO_ENCODE e\<rparr>) s)
            | Inr st \<Rightarrow> emit [Lstat (name d)] (set_file f (d\<lparr>stat := st\<rparr>) s))
         else
           (case sys_stat E (name d) of
              Inl e \<Rightarrow> emit [Stat (name d)] (set_file f (d\<lparr>desc := ERRNO_ENCODE e\<rparr>) s)
            | Inr st \<Rightarrow> emit [Stat (name d)] (set_file f (d\<lparr>stat := st\<rparr>) s)))
      else s)"

text \<open>Lines 1153-1164: files marked as nonexistent for \<open>-N\<close> and \<open>-P\<close>.\<close>

definition mark_nonexistent :: "config \<Rightarrow> comparison option \<Rightarrow> nat \<Rightarrow> cf_state \<Rightarrow> cf_state"
  where
  "mark_nonexistent C par f s =
     (let d = cmp_file s f; d' = cmp_file s (1 - f) in
      if (new_file C \<or> (f = 0 \<and> unidirectional_new_file C))
         \<and> (if desc d = UNOPENED
            then S_ISREG (st_mode (stat d)) \<and> st_mode (stat d) AND S_IRWXUGO = 0
                 \<and> st_size (stat d) = 0
            else (desc d = ERRNO_ENCODE ENOENT \<or> desc d = ERRNO_ENCODE EBADF)
                 \<and> par = None
                 \<and> (desc d' = UNOPENED \<or> desc d' = STDIN_FILENO))
      then set_file f (d\<lparr>desc := NONEXISTENT\<rparr>) s
      else s)"

text \<open>Lines 1166-1170.\<close>

definition clear_nonexistent :: "nat \<Rightarrow> cf_state \<Rightarrow> cf_state" where
  "clear_nonexistent f s =
     (let d = cmp_file s f in
      if desc d = NONEXISTENT
      then set_file f
             (d\<lparr>stat := zero_stat\<lparr>st_mode := st_mode (stat (cmp_file s (1 - f)))\<rparr>\<rparr>) s
      else s)"

text \<open>Lines 1172-1179: the decoded \<open>errno\<close> of a slot is reported.\<close>

definition report_error :: "nat \<Rightarrow> cf_state \<Rightarrow> cf_state" where
  "report_error f s =
     (let d = cmp_file s f; e = ERRNO_DECODE (desc d) in
      if 0 \<le> e
      then emit [Perror_with_name (name d) (nat e)] (s\<lparr>status := EXIT_TROUBLE\<rparr>)
      else s)"

text \<open>The three loops of lines 1115-1170, each over \<open>f = 0, 1\<close>.\<close>

definition stat_and_mark :: "env \<Rightarrow> config \<Rightarrow> comparison option \<Rightarrow> cf_state \<Rightarrow> cf_state"
  where
  "stat_and_mark E C par s =
     clear_nonexistent 1 (clear_nonexistent 0
       (mark_nonexistent C par 1 (mark_nonexistent C par 0
         (stat_file E C 1 (stat_file E C 0 s)))))"

definition resolve :: "env \<Rightarrow> config \<Rightarrow> comparison option \<Rightarrow> cf_state \<Rightarrow> cf_state" where
  "resolve E C par s = report_error 1 (report_error 0 (stat_and_mark E C par s))"

text \<open>
  Lines 1181-1202: a directory named on the command line stands for the file in it
  with the other operand's base name. A failing \<open>stat\<close> leaves the buffer as it was.
\<close>

definition dir_operand :: "env \<Rightarrow> config \<Rightarrow> comparison option \<Rightarrow> cf_state
    \<Rightarrow> result + cf_state" where
  "dir_operand E C par s =
     (if status s = EXIT_SUCCESS \<and> par = None \<and> DIR_P s 0 \<noteq> DIR_P s 1 then
        (let fnm_arg = (if DIR_P s 0 then 1 else 0);
             dir_arg = 1 - fnm_arg;
             fnm = name (cmp_file s fnm_arg);
             dir = name (cmp_file s dir_arg);
             filename = find_dir_file_pathname E dir (last_component E fnm);
             s1 = set_file dir_arg ((cmp_file s dir_arg)\<lparr>name := filename\<rparr>) s
         in if fnm = ''-''
            then Inl (Inl (Fatal (''cannot compare '' @ quoted ''-'' @ '' to a directory'')),
                      events s1)
            else if no_dereference_symlinks C then
              (case sys_lstat E filename of
                 Inl e \<Rightarrow> Inr (emit [Lstat filename, Perror_with_name filename e]
                                (s1\<lparr>status := EXIT_TROUBLE\<rparr>))
               | Inr st \<Rightarrow> Inr (emit [Lstat filename]
                                 (set_file dir_arg ((cmp_file s1 dir_arg)\<lparr>stat := st\<rparr>) s1)))
            else
              (case sys_stat E filename of
                 Inl e \<Rightarrow> Inr (emit [Stat filename, Perror_with_name filename e]
                                (s1\<lparr>status := EXIT_TROUBLE\<rparr>))
               | Inr st \<Rightarrow> Inr (emit [Stat filename]
                                 (set_file dir_arg ((cmp_file s1 dir_arg)\<lparr>stat := st\<rparr>) s1))))
      else Inr s)"

text \<open>Everything before the chain of tests of line 1204.\<close>

definition prepare :: "env \<Rightarrow> config \<Rightarrow> comparison option \<Rightarrow> string option \<Rightarrow> string option
    \<Rightarrow> result + cf_state" where
  "prepare E C par n0 n1 =
     (case compare_files_begin E C par n0 n1 of
        Inl r \<Rightarrow> Inl r
      | Inr s \<Rightarrow> dir_operand E C par (resolve E C par s))"

subsection \<open>\<open>compare_files\<close>: the chain of tests (lines 1204-1360)\<close>

text \<open>The arms of the chain, in the order of the source.\<close>

datatype arm =
    Trouble
  | Neither_exists
  | Same_physical_file
  | Both_directories
  | Not_comparable
  | Symbolic_link
  | Binary_differ
  | Compare_contents

text \<open>The local \<open>same_files\<close> (lines 1209-1214).\<close>

definition same_files :: "cf_state \<Rightarrow> bool" where
  "same_files s =
     (desc (f0 s) \<noteq> NONEXISTENT \<and> desc (f1 s) \<noteq> NONEXISTENT
      \<and> 0 < same_file (stat (f0 s)) (stat (f1 s))
      \<and> same_file_attributes (stat (f0 s)) (stat (f1 s)))"

definition regular_or_link :: "cf_state \<Rightarrow> nat \<Rightarrow> bool" where
  "regular_or_link s f =
     (S_ISREG (st_mode (stat (cmp_file s f))) \<or> S_ISLNK (st_mode (stat (cmp_file s f))))"

definition classify :: "config \<Rightarrow> comparison option \<Rightarrow> cf_state \<Rightarrow> arm" where
  "classify C par s =
     (if status s \<noteq> EXIT_SUCCESS then Trouble
      else if desc (f0 s) = NONEXISTENT \<and> desc (f1 s) = NONEXISTENT then Neither_exists
      else if same_files s \<and> no_diff_means_no_output C then Same_physical_file
      else if DIR_P s 0 \<and> DIR_P s 1 then Both_directories
      else if (DIR_P s 0 \<or> DIR_P s 1)
              \<or> (par \<noteq> None \<and> \<not> (regular_or_link s 0 \<and> regular_or_link s 1))
           then Not_comparable
      else if S_ISLNK (st_mode (stat (f0 s))) \<or> S_ISLNK (st_mode (stat (f1 s)))
           then Symbolic_link
      else if files_can_be_treated_as_binary C
              \<and> S_ISREG (st_mode (stat (f0 s)))
              \<and> S_ISREG (st_mode (stat (f1 s)))
              \<and> st_size (stat (f0 s)) \<noteq> st_size (stat (f1 s))
              \<and> 0 < st_size (stat (f0 s))
              \<and> 0 < st_size (stat (f1 s))
           then Binary_differ
      else Compare_contents)"

text \<open>\<open>status = diff_dirs (&cmp, compare_files)\<close>\<close>

definition call_diff_dirs :: "env \<Rightarrow> comparison option \<Rightarrow> cf_state \<Rightarrow> result + cf_state"
  where
  "call_diff_dirs E par s =
     (case diff_dirs E (cmp_of par s) of
        Inl m \<Rightarrow> Inl (Inl (Fatal m), events s @ [Diff_dirs (cmp_of par s)])
      | Inr st \<Rightarrow> Inr (emit [Diff_dirs (cmp_of par s)] (s\<lparr>status := int st\<rparr>)))"

text \<open>Lines 1218-1231.\<close>

definition both_directories :: "env \<Rightarrow> config \<Rightarrow> comparison option \<Rightarrow> cf_state
    \<Rightarrow> result + cf_state" where
  "both_directories E C par s =
     (if output_style C = OUTPUT_IFDEF
      then Inl (Inl (Fatal ''-D option not supported with directories''), events s)
      else if par \<noteq> None \<and> \<not> recursive C
      then Inr (emit [Message (''Common subdirectories: '' @ name (f0 s) @ '' and ''
                               @ name (f1 s) @ NL)] s)
      else call_diff_dirs E par s)"

text \<open>The \<open>message5\<close> of lines 1263-1270 and 1304-1311.\<close>

definition type_mismatch :: "env \<Rightarrow> config \<Rightarrow> cf_state \<Rightarrow> cf_state" where
  "type_mismatch E C s =
     emit [Message (''File '' @ label0 C s @ '' is a '' @ file_type E (stat (f0 s))
                    @ '' while file '' @ label1 C s @ '' is a ''
                    @ file_type E (stat (f1 s)) @ NL)]
       (s\<lparr>status := EXIT_FAILURE\<rparr>)"

text \<open>Lines 1238-1271.\<close>

definition not_comparable :: "env \<Rightarrow> config \<Rightarrow> comparison option \<Rightarrow> cf_state
    \<Rightarrow> result + cf_state" where
  "not_comparable E C par s =
     (if desc (f0 s) = NONEXISTENT \<or> desc (f1 s) = NONEXISTENT then
        (if (DIR_P s 0 \<or> DIR_P s 1) \<and> recursive C
            \<and> (new_file C \<or> (unidirectional_new_file C \<and> desc (f0 s) = NONEXISTENT))
         then call_diff_dirs E par s
         else
           (case par of
              None \<Rightarrow> Inl (Inl Assertion_failed, events s)
            | Some p \<Rightarrow>
                Inr (emit [Message (''Only in ''
                                    @ file_name_of p (if desc (f0 s) = NONEXISTENT then 1 else 0)
                                    @ '': '' @ name0 s @ NL)]
                       (s\<lparr>status := EXIT_FAILURE\<rparr>))))
      else Inr (type_mismatch E C s))"

text \<open>Lines 1274-1312. The loop over the two links stops at the first failure.\<close>

definition symbolic_link :: "env \<Rightarrow> config \<Rightarrow> cf_state \<Rightarrow> result + cf_state" where
  "symbolic_link E C s =
     (if \<not> no_dereference_symlinks C then Inl (Inl Assertion_failed, events s)
      else if S_ISLNK (st_mode (stat (f0 s))) \<and> S_ISLNK (st_mode (stat (f1 s))) then
        (case xreadlink E (name (f0 s)) of
           Inl e \<Rightarrow>
             Inr (emit [Xreadlink (name (f0 s)), Perror_with_name (name (f0 s)) e]
                    (s\<lparr>status := EXIT_TROUBLE\<rparr>))
         | Inr v0 \<Rightarrow>
             (case xreadlink E (name (f1 s)) of
                Inl e \<Rightarrow>
                  Inr (emit [Xreadlink (name (f0 s)), Xreadlink (name (f1 s)),
                             Perror_with_name (name (f1 s)) e]
                         (s\<lparr>status := EXIT_TROUBLE\<rparr>))
              | Inr v1 \<Rightarrow>
                  (if v0 \<noteq> v1
                   then Inr (emit [Xreadlink (name (f0 s)), Xreadlink (name (f1 s)),
                                   Message (''Symbolic links '' @ name (f0 s) @ '' and ''
                                            @ name (f1 s) @ '' differ'' @ NL)]
                               (s\<lparr>status := EXIT_FAILURE\<rparr>))
                   else Inr (emit [Xreadlink (name (f0 s)), Xreadlink (name (f1 s))] s))))
      else Inr (type_mismatch E C s))"

text \<open>Lines 1319-1322.\<close>

definition binary_differ :: "config \<Rightarrow> cf_state \<Rightarrow> cf_state" where
  "binary_differ C s =
     emit [Message (''Files '' @ label0 C s @ '' and '' @ label1 C s @ '' differ'' @ NL)]
       (s\<lparr>status := EXIT_FAILURE\<rparr>)"

text \<open>
  Lines 1328-1359, a step at a time. A failing \<open>open\<close> returns \<open>-1\<close>, which is stored
  in \<open>desc\<close>. \<open>sf\<close> is the local \<open>same_files\<close>, computed by the chain of tests.
\<close>

definition open0 :: "env \<Rightarrow> cf_state \<Rightarrow> cf_state" where
  "open0 E s =
     (if desc (f0 s) = UNOPENED then
        (case sys_open E (name (f0 s)) of
           Inl e \<Rightarrow>
             emit [Open_file (name (f0 s)), Perror_with_name (name (f0 s)) e]
               (s\<lparr>f0 := (f0 s)\<lparr>desc := - 1\<rparr>, status := EXIT_TROUBLE\<rparr>)
         | Inr fd \<Rightarrow> emit [Open_file (name (f0 s))] (s\<lparr>f0 := (f0 s)\<lparr>desc := int fd\<rparr>\<rparr>))
      else s)"

definition open1 :: "env \<Rightarrow> bool \<Rightarrow> cf_state \<Rightarrow> cf_state" where
  "open1 E sf s =
     (if desc (f1 s) = UNOPENED then
        (if sf then s\<lparr>f1 := (f1 s)\<lparr>desc := desc (f0 s)\<rparr>\<rparr>
         else
           (case sys_open E (name (f1 s)) of
              Inl e \<Rightarrow>
                emit [Open_file (name (f1 s)), Perror_with_name (name (f1 s)) e]
                  (s\<lparr>f1 := (f1 s)\<lparr>desc := - 1\<rparr>, status := EXIT_TROUBLE\<rparr>)
            | Inr fd \<Rightarrow> emit [Open_file (name (f1 s))] (s\<lparr>f1 := (f1 s)\<lparr>desc := int fd\<rparr>\<rparr>)))
      else s)"

definition close0 :: "env \<Rightarrow> cf_state \<Rightarrow> cf_state" where
  "close0 E s =
     (if 0 \<le> desc (f0 s) then
        (case sys_close E (desc (f0 s)) of
           None \<Rightarrow> emit [Close_file (desc (f0 s))] s
         | Some e \<Rightarrow>
             emit [Close_file (desc (f0 s)), Perror_with_name (name (f0 s)) e]
               (s\<lparr>status := EXIT_TROUBLE\<rparr>))
      else s)"

definition close1 :: "env \<Rightarrow> cf_state \<Rightarrow> cf_state" where
  "close1 E s =
     (if 0 \<le> desc (f1 s) \<and> desc (f0 s) \<noteq> desc (f1 s) then
        (case sys_close E (desc (f1 s)) of
           None \<Rightarrow> emit [Close_file (desc (f1 s))] s
         | Some e \<Rightarrow>
             emit [Close_file (desc (f1 s)), Perror_with_name (name (f1 s)) e]
               (s\<lparr>status := EXIT_TROUBLE\<rparr>))
      else s)"

definition compare_contents :: "env \<Rightarrow> comparison option \<Rightarrow> bool \<Rightarrow> cf_state
    \<Rightarrow> result + cf_state" where
  "compare_contents E par sf s =
     (let s1 = open1 E sf (open0 E s) in
      if status s1 = EXIT_SUCCESS then
        (case diff_2_files E (cmp_of par s1) of
           Inl m \<Rightarrow> Inl (Inl (Fatal m), events s1 @ [Diff_2_files (cmp_of par s1)])
         | Inr st \<Rightarrow>
             Inr (close1 E (close0 E
                    (emit [Diff_2_files (cmp_of par s1)] (s1\<lparr>status := int st\<rparr>)))))
      else Inr (close1 E (close0 E s1)))"

text \<open>What each arm does.\<close>

definition act :: "env \<Rightarrow> config \<Rightarrow> comparison option \<Rightarrow> cf_state \<Rightarrow> result + cf_state"
  where
  "act E C par s =
     (case classify C par s of
        Trouble \<Rightarrow> Inr s
      | Neither_exists \<Rightarrow> Inr s
      | Same_physical_file \<Rightarrow> Inr s
      | Both_directories \<Rightarrow> both_directories E C par s
      | Not_comparable \<Rightarrow> not_comparable E C par s
      | Symbolic_link \<Rightarrow> symbolic_link E C s
      | Binary_differ \<Rightarrow> Inr (binary_differ C s)
      | Compare_contents \<Rightarrow> compare_contents E par (same_files s) s)"

text \<open>Lines 1365-1380.\<close>

definition finish :: "env \<Rightarrow> config \<Rightarrow> cf_state \<Rightarrow> result" where
  "finish E C s =
     (if status s = EXIT_SUCCESS then
        (if report_identical_files C \<and> \<not> DIR_P s 0
         then (Inr (status s),
               events s @ [Message (''Files '' @ label0 C s @ '' and '' @ label1 C s
                                    @ '' are identical'' @ NL)])
         else (Inr (status s), events s))
      else
        (case sys_fflush_stdout E of
           None \<Rightarrow> (Inr (status s), events s @ [Fflush_stdout])
         | Some e \<Rightarrow> (Inl (Fatal ''standard output''), events s @ [Fflush_stdout])))"

definition compare_files :: "env \<Rightarrow> config \<Rightarrow> comparison option \<Rightarrow> string option
    \<Rightarrow> string option \<Rightarrow> result" where
  "compare_files E C par n0 n1 =
     (case prepare E C par n0 n1 of
        Inl r \<Rightarrow> r
      | Inr s \<Rightarrow>
          (case act E C par s of
             Inl r \<Rightarrow> r
           | Inr s' \<Rightarrow> finish E C s'))"

subsection \<open>The end of \<open>main\<close> (lines 723-787)\<close>

text \<open>
  Lines 733-750: the default of \<open>group_format[UNCHANGED]\<close> and
  \<open>line_format[UNCHANGED]\<close> for \<open>OUTPUT_IFDEF\<close>, and the two derived flags. The C
  expressions combine truth values with the bitwise operators of \<open>int\<close>; a \<open>bool\<close>
  is assigned, so any nonzero value is true.
\<close>

definition main_flags :: "config \<Rightarrow> config" where
  "main_flags C =
     (let ifdef = (output_style C = OUTPUT_IFDEF);
          gf = (case group_format_UNCHANGED C of None \<Rightarrow> ''%='' | Some g \<Rightarrow> g);
          lf = (case line_format_UNCHANGED C of None \<Rightarrow> ''%l'' @ NL | Some l \<Rightarrow> l)
      in C\<lparr>group_format_UNCHANGED :=
             (if ifdef then Some gf else group_format_UNCHANGED C),
           line_format_UNCHANGED :=
             (if ifdef then Some lf else line_format_UNCHANGED C),
           no_diff_means_no_output :=
             (if ifdef
              then gf = [] \<or> (gf = ''%='' \<and> lf = [])
              else (of_bool (output_style C \<noteq> OUTPUT_SDIFF)
                    OR of_bool (suppress_common_lines C)) \<noteq> (0 :: int)),
           files_can_be_treated_as_binary :=
             ((of_bool (brief C) AND of_bool (binary C)
               AND NOT (of_bool (ignore_blank_lines C) OR of_bool (ignore_case C)
                        OR of_bool (strip_trailing_cr C)
                        OR of_bool (ignore_regexps C \<noteq> None \<or> ignore_white_space C \<noteq> 0)))
              \<noteq> (0 :: int))\<rparr>)"





subsection \<open>Vocabulary for the properties\<close>

text \<open>
  The descriptor of the slot holds an encoded \<open>errno\<close>: the test \<open>0 <= e\<close> of line
  1174.
\<close>

definition failed :: "file_data \<Rightarrow> bool" where
  "failed d = (0 \<le> ERRNO_DECODE (desc d))"

text \<open>The slot stands for a file that was found: it is neither absent nor failed.\<close>

definition present :: "file_data \<Rightarrow> bool" where
  "present d = (desc d \<noteq> NONEXISTENT \<and> \<not> failed d)"

text \<open>The system calls of the resolution, as opposed to diagnostics and comparisons.\<close>

fun resolution_event :: "event \<Rightarrow> bool" where
  "resolution_event (Stat n) = True"
| "resolution_event (Lstat n) = True"
| "resolution_event Fstat_stdin = True"
| "resolution_event Lseek_stdin = True"
| "resolution_event Set_binary_mode_stdin = True"
| "resolution_event Gettime = True"
| "resolution_event e = False"

text \<open>The \<open>perror_with_name\<close> due for a slot (lines 1174-1178).\<close>

definition error_report :: "file_data \<Rightarrow> event list" where
  "error_report d =
     (if failed d then [Perror_with_name (name d) (nat (ERRNO_DECODE (desc d)))] else [])"

text \<open>
  The state of a top-level pair \<open>a\<close>, \<open>b\<close> at line 1181, after resolution: \<open>main\<close>
  always hands two names to \<open>compare_files\<close>, and no parent.
\<close>

definition top_level :: "env \<Rightarrow> config \<Rightarrow> string \<Rightarrow> string \<Rightarrow> cf_state" where
  "top_level E C a b =
     resolve E C None
       \<lparr>f0 = \<lparr>desc = UNOPENED, name = a, stat = zero_stat\<rparr>,
        f1 = \<lparr>desc = UNOPENED, name = b, stat = zero_stat\<rparr>,
        name0 = a, status = EXIT_SUCCESS, events = []\<rparr>"

text \<open>
  \<open>dir_operand\<close> when the first, respectively the second, operand is the directory.
\<close>

definition dir_operand_first :: "env \<Rightarrow> config \<Rightarrow> cf_state \<Rightarrow> result + cf_state" where
  "dir_operand_first E C s =
     (let filename = find_dir_file_pathname E (name (f0 s)) (last_component E (name (f1 s)));
          s1 = s\<lparr>f0 := (f0 s)\<lparr>name := filename\<rparr>\<rparr>
      in if name (f1 s) = ''-''
         then Inl (Inl (Fatal (''cannot compare '' @ quoted ''-'' @ '' to a directory'')), events s)
         else (case (if no_dereference_symlinks C then sys_lstat E else sys_stat E) filename of
                 Inl e \<Rightarrow>
                   Inr (emit [(if no_dereference_symlinks C then Lstat else Stat) filename,
                              Perror_with_name filename e] (s1\<lparr>status := EXIT_TROUBLE\<rparr>))
               | Inr st \<Rightarrow>
                   Inr (emit [(if no_dereference_symlinks C then Lstat else Stat) filename]
                          (s1\<lparr>f0 := (f0 s1)\<lparr>stat := st\<rparr>\<rparr>))))"

definition dir_operand_second :: "env \<Rightarrow> config \<Rightarrow> cf_state \<Rightarrow> result + cf_state" where
  "dir_operand_second E C s =
     (let filename = find_dir_file_pathname E (name (f1 s)) (last_component E (name (f0 s)));
          s1 = s\<lparr>f1 := (f1 s)\<lparr>name := filename\<rparr>\<rparr>
      in if name (f0 s) = ''-''
         then Inl (Inl (Fatal (''cannot compare '' @ quoted ''-'' @ '' to a directory'')), events s)
         else (case (if no_dereference_symlinks C then sys_lstat E else sys_stat E) filename of
                 Inl e \<Rightarrow>
                   Inr (emit [(if no_dereference_symlinks C then Lstat else Stat) filename,
                              Perror_with_name filename e] (s1\<lparr>status := EXIT_TROUBLE\<rparr>))
               | Inr st \<Rightarrow>
                   Inr (emit [(if no_dereference_symlinks C then Lstat else Stat) filename]
                          (s1\<lparr>f1 := (f1 s1)\<lparr>stat := st\<rparr>\<rparr>))))"

text \<open>
  A slot that is absent or failed never carries the mode of a directory: what the
  loops of lines 1115-1164 keep true of each slot.
\<close>

definition no_dir_if_unresolved :: "file_data \<Rightarrow> bool" where
  "no_dir_if_unresolved d =
     (if desc d = NONEXISTENT \<or> failed d then \<not> S_ISDIR (st_mode (stat d)) else True)"


text \<open>A comparison of contents or of link values, or a descent into directories.\<close>

fun comparison_event :: "event \<Rightarrow> bool" where
  "comparison_event (Diff_dirs c) = True"
| "comparison_event (Diff_2_files c) = True"
| "comparison_event (Xreadlink n) = True"
| "comparison_event e = False"


subsection \<open>A small file system for concrete runs\<close>

text \<open>
  Two regular files \<open>a\<close> (with a second link \<open>a2\<close>) and \<open>b\<close> of different sizes, a directory \<open>d\<close> (also
  reachable as \<open>d/.\<close>) holding a file \<open>a\<close>, one directory reachable as \<open>p/sub\<close> and
  \<open>q/sub\<close>, another directory \<open>p/a\<close>, a FIFO \<open>p/f\<close>, two inaccessible empty regular
  files \<open>e0\<close> and \<open>e1\<close>, and three symbolic links: \<open>l1\<close> and \<open>l2\<close> to \<open>/tmp/foo\<close>,
  \<open>l3\<close> to \<open>/tmp/bar\<close>. No other name exists.
  Standard input is a regular file of ten bytes, five of them read.
\<close>

definition ex_reg :: "nat \<Rightarrow> nat \<Rightarrow> stat" where
  "ex_reg i n = \<lparr>st_dev = 1, st_ino = i, st_mode = 0x81A4, st_uid = 1000, st_gid = 1000,
                 st_size = n, st_mtime = 100\<rparr>"

definition ex_dir :: "nat \<Rightarrow> stat" where
  "ex_dir i = \<lparr>st_dev = 1, st_ino = i, st_mode = 0x41ED, st_uid = 1000, st_gid = 1000,
               st_size = 4096, st_mtime = 100\<rparr>"

definition ex_lnk :: "nat \<Rightarrow> stat" where
  "ex_lnk i = \<lparr>st_dev = 1, st_ino = i, st_mode = 0xA1FF, st_uid = 1000, st_gid = 1000,
               st_size = 8, st_mtime = 100\<rparr>"

definition ex_backup :: "nat \<Rightarrow> stat" where
  "ex_backup i = \<lparr>st_dev = 1, st_ino = i, st_mode = 0x8000, st_uid = 1000, st_gid = 1000,
                  st_size = 0, st_mtime = 100\<rparr>"

definition ex_fifo :: "nat \<Rightarrow> stat" where
  "ex_fifo i = \<lparr>st_dev = 1, st_ino = i, st_mode = 0x11A4, st_uid = 1000, st_gid = 1000,
                st_size = 0, st_mtime = 100\<rparr>"

definition ex_stat :: "string \<Rightarrow> nat + stat" where
  "ex_stat n =
     (if n = ''a'' \<or> n = ''a2'' then Inr (ex_reg 10 3)
      else if n = ''b'' then Inr (ex_reg 11 5)
      else if n = ''d'' \<or> n = ''d/.'' then Inr (ex_dir 20)
      else if n = ''d/a'' then Inr (ex_reg 12 3)
      else if n = ''p/sub'' \<or> n = ''q/sub'' then Inr (ex_dir 30)
      else if n = ''p/a'' then Inr (ex_dir 31)
      else if n = ''p/f'' then Inr (ex_fifo 32)
      else if n = ''e0'' then Inr (ex_backup 40)
      else if n = ''e1'' then Inr (ex_backup 41)
      else Inl ENOENT)"

definition ex_lstat :: "string \<Rightarrow> nat + stat" where
  "ex_lstat n =
     (if n = ''l1'' then Inr (ex_lnk 50)
      else if n = ''l2'' then Inr (ex_lnk 51)
      else if n = ''l3'' then Inr (ex_lnk 52)
      else ex_stat n)"

definition ex_readlink :: "string \<Rightarrow> nat + string" where
  "ex_readlink n =
     (if n = ''l1'' \<or> n = ''l2'' then Inr ''/tmp/foo''
      else if n = ''l3'' then Inr ''/tmp/bar''
      else Inl 22)"

definition ex_file_type :: "stat \<Rightarrow> string" where
  "ex_file_type st =
     (if S_ISREG (st_mode st) then ''regular file''
      else if S_ISDIR (st_mode st) then ''directory''
      else if S_ISLNK (st_mode st) then ''symbolic link''
      else ''weird file'')"

definition ex_last_component :: "string \<Rightarrow> string" where
  "ex_last_component x = rev (takeWhile (\<lambda>c. c \<noteq> CHR ''/'') (rev x))"

definition ex_env :: env where
  "ex_env =
     \<lparr>sys_stat = ex_stat, sys_lstat = ex_lstat,
      sys_fstat_stdin = Inr (ex_reg 60 10), sys_lseek_stdin = Inr 5,
      isatty_stdin = False, gettime = 200,
      xreadlink = ex_readlink,
      sys_open = (\<lambda>n. Inr 3), sys_close = (\<lambda>d. None), sys_fflush_stdout = None,
      diff_dirs = (\<lambda>c. Inr 1), diff_2_files = (\<lambda>c. Inr 1),
      file_name_concat = (\<lambda>d b. d @ ''/'' @ b),
      find_dir_file_pathname = (\<lambda>d b. d @ ''/'' @ b),
      last_component = ex_last_component,
      file_type = ex_file_type,
      ferror_stdout = False, sys_fclose_stdout = None\<rparr>"

text \<open>The option variables when no option is given, on a host without \<open>O_BINARY\<close>.\<close>

definition ex_options :: config where
  "ex_options =
     \<lparr>recursive = False, binary = True, new_file = False,
      unidirectional_new_file = False, report_identical_files = False,
      no_dereference_symlinks = False, output_style = OUTPUT_NORMAL,
      file_label0 = None, file_label1 = None, brief = False,
      ignore_blank_lines = False, ignore_case = False, strip_trailing_cr = False,
      ignore_regexps = None, ignore_white_space = 0, suppress_common_lines = False,
      group_format_UNCHANGED = None, line_format_UNCHANGED = None,
      no_diff_means_no_output = False, files_can_be_treated_as_binary = False\<rparr>"

text \<open>The pair of directories \<open>p\<close> and \<open>q\<close>, as the parent of a nested comparison.\<close>

definition ex_parent :: comparison where
  "ex_parent =
     Comparison \<lparr>desc = UNOPENED, name = ''p'', stat = ex_dir 21\<rparr>
                \<lparr>desc = UNOPENED, name = ''q'', stat = ex_dir 22\<rparr> None"

section \<open>Properties\<close>

subsection \<open>Auxiliary facts\<close>

lemmas status_defs = EXIT_SUCCESS_def EXIT_FAILURE_def EXIT_TROUBLE_def
lemmas desc_defs = NONEXISTENT_def UNOPENED_def ERRNO_ENCODE_def ERRNO_DECODE_def STDIN_FILENO_def
lemmas mode_defs = S_ISDIR_def S_ISREG_def S_ISLNK_def S_IFMT_def S_IFDIR_def S_IFREG_def S_IFLNK_def

lemma cmp_file_simps [simp]:
  "cmp_file s 0 = f0 s" "cmp_file s (Suc 0) = f1 s" "cmp_file s 1 = f1 s"
  by (simp_all add: cmp_file_def)

lemma set_file_simps [simp]:
  "set_file 0 d s = s\<lparr>f0 := d\<rparr>" "set_file (Suc 0) d s = s\<lparr>f1 := d\<rparr>" "set_file 1 d s = s\<lparr>f1 := d\<rparr>"
  by (simp_all add: set_file_def)

lemma emit_simps [simp]:
  "f0 (emit es s) = f0 s" "f1 (emit es s) = f1 s" "status (emit es s) = status s"
  "name0 (emit es s) = name0 s" "events (emit es s) = events s @ es"
  by (simp_all add: emit_def)

lemma DIR_P_simps: "DIR_P s 0 = S_ISDIR (st_mode (stat (f0 s)))" "DIR_P s 1 = S_ISDIR (st_mode (stat (f1 s)))"
  "DIR_P s (Suc 0) = S_ISDIR (st_mode (stat (f1 s)))"
  by (simp_all add: DIR_P_def)

lemma mode_exclusive:
  "S_ISREG m \<Longrightarrow> \<not> S_ISDIR m" "S_ISREG m \<Longrightarrow> \<not> S_ISLNK m" "S_ISLNK m \<Longrightarrow> \<not> S_ISDIR m"
  "S_ISDIR m \<Longrightarrow> \<not> S_ISREG m" "S_ISLNK m \<Longrightarrow> \<not> S_ISREG m" "S_ISDIR m \<Longrightarrow> \<not> S_ISLNK m"
  by (simp_all add: mode_defs)

text \<open>The loop bodies touch one slot and never the status.\<close>

lemma stat_stdin_0:
  "f1 (stat_stdin E C 0 s) = f1 s" "status (stat_stdin E C 0 s) = status s"
  "name0 (stat_stdin E C 0 s) = name0 s" "name (f0 (stat_stdin E C 0 s)) = name (f0 s)"
  "\<exists>es. events (stat_stdin E C 0 s) = events s @ es \<and> list_all resolution_event es"
  by (simp_all add: stat_stdin_def Let_def split: sum.splits)

lemma stat_stdin_1:
  "f0 (stat_stdin E C (Suc 0) s) = f0 s" "status (stat_stdin E C (Suc 0) s) = status s"
  "name0 (stat_stdin E C (Suc 0) s) = name0 s" "name (f1 (stat_stdin E C (Suc 0) s)) = name (f1 s)"
  "\<exists>es. events (stat_stdin E C (Suc 0) s) = events s @ es \<and> list_all resolution_event es"
  by (simp_all add: stat_stdin_def Let_def split: sum.splits)

lemma stat_file_0:
  "f1 (stat_file E C 0 s) = f1 s" "status (stat_file E C 0 s) = status s"
  "name0 (stat_file E C 0 s) = name0 s" "name (f0 (stat_file E C 0 s)) = name (f0 s)"
  "\<exists>es. events (stat_file E C 0 s) = events s @ es \<and> list_all resolution_event es"
  by (simp_all add: stat_file_def Let_def stat_stdin_0 split: sum.splits)

lemma stat_file_1:
  "f0 (stat_file E C (Suc 0) s) = f0 s" "status (stat_file E C (Suc 0) s) = status s"
  "name0 (stat_file E C (Suc 0) s) = name0 s" "name (f1 (stat_file E C (Suc 0) s)) = name (f1 s)"
  "\<exists>es. events (stat_file E C (Suc 0) s) = events s @ es \<and> list_all resolution_event es"
  by (simp_all add: stat_file_def Let_def stat_stdin_1 split: sum.splits)

lemma mark_0:
  "f1 (mark_nonexistent C par 0 s) = f1 s" "status (mark_nonexistent C par 0 s) = status s"
  "name0 (mark_nonexistent C par 0 s) = name0 s" "name (f0 (mark_nonexistent C par 0 s)) = name (f0 s)"
  "events (mark_nonexistent C par 0 s) = events s" "stat (f0 (mark_nonexistent C par 0 s)) = stat (f0 s)"
  by (simp_all add: mark_nonexistent_def Let_def)

lemma mark_1:
  "f0 (mark_nonexistent C par (Suc 0) s) = f0 s" "status (mark_nonexistent C par (Suc 0) s) = status s"
  "name0 (mark_nonexistent C par (Suc 0) s) = name0 s" "name (f1 (mark_nonexistent C par (Suc 0) s)) = name (f1 s)"
  "events (mark_nonexistent C par (Suc 0) s) = events s" "stat (f1 (mark_nonexistent C par (Suc 0) s)) = stat (f1 s)"
  by (simp_all add: mark_nonexistent_def Let_def)

lemma clear_0:
  "f1 (clear_nonexistent 0 s) = f1 s" "status (clear_nonexistent 0 s) = status s"
  "name0 (clear_nonexistent 0 s) = name0 s" "name (f0 (clear_nonexistent 0 s)) = name (f0 s)"
  "events (clear_nonexistent 0 s) = events s" "desc (f0 (clear_nonexistent 0 s)) = desc (f0 s)"
  "stat (f0 (clear_nonexistent 0 s)) =
     (if desc (f0 s) = NONEXISTENT then zero_stat\<lparr>st_mode := st_mode (stat (f1 s))\<rparr> else stat (f0 s))"
  by (simp_all add: clear_nonexistent_def Let_def)

lemma clear_1:
  "f0 (clear_nonexistent (Suc 0) s) = f0 s" "status (clear_nonexistent (Suc 0) s) = status s"
  "name0 (clear_nonexistent (Suc 0) s) = name0 s" "name (f1 (clear_nonexistent (Suc 0) s)) = name (f1 s)"
  "events (clear_nonexistent (Suc 0) s) = events s" "desc (f1 (clear_nonexistent (Suc 0) s)) = desc (f1 s)"
  "stat (f1 (clear_nonexistent (Suc 0) s)) =
     (if desc (f1 s) = NONEXISTENT then zero_stat\<lparr>st_mode := st_mode (stat (f0 s))\<rparr> else stat (f1 s))"
  by (simp_all add: clear_nonexistent_def Let_def)

lemma report_0:
  "f0 (report_error 0 s) = f0 s" "f1 (report_error 0 s) = f1 s" "name0 (report_error 0 s) = name0 s"
  "status (report_error 0 s) = (if failed (f0 s) then EXIT_TROUBLE else status s)"
  "events (report_error 0 s) = events s @ error_report (f0 s)"
  by (simp_all add: report_error_def Let_def failed_def error_report_def)

lemma report_1:
  "f0 (report_error (Suc 0) s) = f0 s" "f1 (report_error (Suc 0) s) = f1 s" "name0 (report_error (Suc 0) s) = name0 s"
  "status (report_error (Suc 0) s) = (if failed (f1 s) then EXIT_TROUBLE else status s)"
  "events (report_error (Suc 0) s) = events s @ error_report (f1 s)"
  by (simp_all add: report_error_def Let_def failed_def error_report_def)

text \<open>The state after the three loops of lines 1115-1170.\<close>

lemma stat_and_mark_status: "status (stat_and_mark E C par s) = status s"
  by (simp add: stat_and_mark_def clear_0 clear_1 mark_0 mark_1 stat_file_0 stat_file_1)

lemma stat_and_mark_name0: "name0 (stat_and_mark E C par s) = name0 s"
  by (simp add: stat_and_mark_def clear_0 clear_1 mark_0 mark_1 stat_file_0 stat_file_1)

lemma stat_and_mark_events:
  "\<exists>es. events (stat_and_mark E C par s) = events s @ es \<and> list_all resolution_event es"
proof -
  obtain es0 where e0: "events (stat_file E C 0 s) = events s @ es0" "list_all resolution_event es0"
    using stat_file_0(5) by blast
  obtain es1 where e1: "events (stat_file E C (Suc 0) (stat_file E C 0 s)) = events (stat_file E C 0 s) @ es1"
     "list_all resolution_event es1"
    using stat_file_1(5) by blast
  have "events (stat_and_mark E C par s) = events s @ (es0 @ es1)"
    by (simp add: stat_and_mark_def clear_0 clear_1 mark_0 mark_1 e0 e1)
  moreover have "list_all resolution_event (es0 @ es1)" using e0 e1 by simp
  ultimately show ?thesis by blast
qed

lemma stat_and_mark_absent_size:
  "desc (f0 (stat_and_mark E C par s)) = NONEXISTENT \<Longrightarrow> st_size (stat (f0 (stat_and_mark E C par s))) = 0"
  "desc (f1 (stat_and_mark E C par s)) = NONEXISTENT \<Longrightarrow> st_size (stat (f1 (stat_and_mark E C par s))) = 0"
  by (simp_all add: stat_and_mark_def clear_0 clear_1 zero_stat_def)

lemma stat_and_mark_absent_mode:
  "desc (f0 (stat_and_mark E C par s)) = NONEXISTENT \<or> desc (f1 (stat_and_mark E C par s)) = NONEXISTENT
   \<Longrightarrow> st_mode (stat (f0 (stat_and_mark E C par s))) = st_mode (stat (f1 (stat_and_mark E C par s)))"
  by (auto simp add: stat_and_mark_def clear_0 clear_1 zero_stat_def)

text \<open>The state at line 1181, and at line 1204.\<close>

lemma resolve_fields:
  "f0 (resolve E C par s) = f0 (stat_and_mark E C par s)"
  "f1 (resolve E C par s) = f1 (stat_and_mark E C par s)"
  "name0 (resolve E C par s) = name0 s"
  "status (resolve E C par s) =
     (if failed (f0 (stat_and_mark E C par s)) \<or> failed (f1 (stat_and_mark E C par s))
      then EXIT_TROUBLE else status s)"
  "events (resolve E C par s) =
     events (stat_and_mark E C par s) @ error_report (f0 (stat_and_mark E C par s))
       @ error_report (f1 (stat_and_mark E C par s))"
  by (simp_all add: resolve_def report_0 report_1 stat_and_mark_status stat_and_mark_name0)

lemma absent_not_failed: "desc d = NONEXISTENT \<Longrightarrow> \<not> failed d"
  by (simp add: failed_def desc_defs)

lemma dir_operand_cases:
  assumes "dir_operand E C par r = Inr s"
  shows "s = r
    \<or> (status r = EXIT_SUCCESS \<and> par = None \<and> DIR_P r 0 \<noteq> DIR_P r 1
        \<and> desc (f0 s) = desc (f0 r) \<and> desc (f1 s) = desc (f1 r) \<and> name0 s = name0 r
        \<and> ((status s = EXIT_SUCCESS \<and> (\<exists>ev. events s = events r @ [ev] \<and> resolution_event ev))
            \<or> (status s = EXIT_TROUBLE \<and> stat (f0 s) = stat (f0 r) \<and> stat (f1 s) = stat (f1 r))))"
  using assms
  by (auto simp add: dir_operand_def Let_def split: if_splits sum.splits)

lemma begin_state:
  assumes "compare_files_begin E C par n0 n1 = Inr s0"
  shows "status s0 = EXIT_SUCCESS" "events s0 = []"
  using assms
  by (auto simp add: compare_files_begin_def start_def Let_def split: if_splits option.splits)

lemma prepare_Inr:
  assumes "prepare E C par n0 n1 = Inr s"
  obtains s0 where "compare_files_begin E C par n0 n1 = Inr s0"
    and "dir_operand E C par (resolve E C par s0) = Inr s"
  using assms by (auto simp add: prepare_def split: sum.splits)

lemma prepare_inv:
  assumes "prepare E C par n0 n1 = Inr s"
  shows "status s = EXIT_SUCCESS \<or> status s = EXIT_TROUBLE"
    and "status s = EXIT_SUCCESS \<Longrightarrow> \<not> failed (f0 s) \<and> \<not> failed (f1 s)"
    and "status s \<noteq> EXIT_SUCCESS \<Longrightarrow> failed (f0 s) \<or> failed (f1 s) \<or> DIR_P s 0 \<or> DIR_P s 1"
    and "desc (f0 s) = NONEXISTENT \<Longrightarrow> st_size (stat (f0 s)) = 0"
    and "desc (f1 s) = NONEXISTENT \<Longrightarrow> st_size (stat (f1 s)) = 0"
    and "desc (f0 s) = NONEXISTENT \<Longrightarrow> desc (f1 s) = NONEXISTENT \<Longrightarrow> status s = EXIT_SUCCESS"
    and "status s = EXIT_SUCCESS \<Longrightarrow> list_all resolution_event (events s)"
proof -
  obtain s0 where b: "compare_files_begin E C par n0 n1 = Inr s0"
    and d: "dir_operand E C par (resolve E C par s0) = Inr s"
    using assms by (rule prepare_Inr)
  let ?t = "stat_and_mark E C par s0"
  let ?r = "resolve E C par s0"
  note rf = resolve_fields [of E C par s0]
  have s0: "status s0 = EXIT_SUCCESS" "events s0 = []" using begin_state [OF b] by simp_all
  obtain es where es: "events ?t = es" "list_all resolution_event es"
    using stat_and_mark_events [of E C par s0] s0 by auto
  have sz: "desc (f0 ?r) = NONEXISTENT \<Longrightarrow> st_size (stat (f0 ?r)) = 0"
           "desc (f1 ?r) = NONEXISTENT \<Longrightarrow> st_size (stat (f1 ?r)) = 0"
    using stat_and_mark_absent_size [of E C par s0] by (simp_all add: rf)
  have md: "desc (f0 ?r) = NONEXISTENT \<or> desc (f1 ?r) = NONEXISTENT \<Longrightarrow> DIR_P ?r 0 = DIR_P ?r 1"
    using stat_and_mark_absent_mode [of E C par s0] by (simp add: rf DIR_P_simps)
  have ev: "status ?r = EXIT_SUCCESS \<Longrightarrow> events ?r = es"
    by (simp add: rf es error_report_def status_defs split: if_splits)
  note c = dir_operand_cases [OF d]
  show "status s = EXIT_SUCCESS \<or> status s = EXIT_TROUBLE"
    using c s0 by (auto simp add: rf)
  show "status s = EXIT_SUCCESS \<Longrightarrow> \<not> failed (f0 s) \<and> \<not> failed (f1 s)"
    using c s0 by (auto simp add: rf failed_def status_defs split: if_splits)
  show "status s \<noteq> EXIT_SUCCESS \<Longrightarrow> failed (f0 s) \<or> failed (f1 s) \<or> DIR_P s 0 \<or> DIR_P s 1"
    using c s0 by (auto simp add: rf DIR_P_simps split: if_splits)
  show "desc (f0 s) = NONEXISTENT \<Longrightarrow> st_size (stat (f0 s)) = 0"
    using c sz md by auto
  show "desc (f1 s) = NONEXISTENT \<Longrightarrow> st_size (stat (f1 s)) = 0"
    using c sz md by auto
  show "desc (f0 s) = NONEXISTENT \<Longrightarrow> desc (f1 s) = NONEXISTENT \<Longrightarrow> status s = EXIT_SUCCESS"
    using c s0 md by (auto simp add: rf absent_not_failed)
  show "status s = EXIT_SUCCESS \<Longrightarrow> list_all resolution_event (events s)"
    using c ev es by (auto simp add: status_defs)
qed

text \<open>How a call ends, and what the arm of two directories does.\<close>

lemma finish_differ:
  "status s = EXIT_FAILURE \<Longrightarrow>
     finish E C s =
       ((if sys_fflush_stdout E = None then Inr EXIT_FAILURE else Inl (Fatal ''standard output'')),
        events s @ [Fflush_stdout])"
  by (simp add: finish_def status_defs split: option.splits)

lemma finish_cases:
  "finish E C s =
     (if status s = EXIT_SUCCESS
      then (Inr EXIT_SUCCESS,
            events s @ (if report_identical_files C \<and> \<not> DIR_P s 0
                        then [Message (''Files '' @ label0 C s @ '' and '' @ label1 C s
                                       @ '' are identical'' @ NL)]
                        else []))
      else ((if sys_fflush_stdout E = None then Inr (status s)
             else Inl (Fatal ''standard output'')),
            events s @ [Fflush_stdout]))"
  by (simp add: finish_def split: option.splits)

lemma both_directories_run:
  assumes "prepare E C par n0 n1 = Inr s"
    and "status s = EXIT_SUCCESS"
    and "\<not> (desc (f0 s) = NONEXISTENT \<and> desc (f1 s) = NONEXISTENT)"
    and "\<not> (same_files s \<and> no_diff_means_no_output C)"
    and "DIR_P s 0" and "DIR_P s 1"
  shows "classify C par s = Both_directories"
    and "compare_files E C par n0 n1 =
      (if output_style C = OUTPUT_IFDEF
       then (Inl (Fatal ''-D option not supported with directories''), events s)
       else if par \<noteq> None \<and> \<not> recursive C
       then (Inr EXIT_SUCCESS,
             events s @ [Message (''Common subdirectories: '' @ name (f0 s) @ '' and ''
                                  @ name (f1 s) @ NL)])
       else (case diff_dirs E (cmp_of par s) of
               Inl m \<Rightarrow> (Inl (Fatal m), events s @ [Diff_dirs (cmp_of par s)])
             | Inr st \<Rightarrow>
                 (if st = 0 then (Inr EXIT_SUCCESS, events s @ [Diff_dirs (cmp_of par s)])
                  else ((if sys_fflush_stdout E = None then Inr (int st)
                         else Inl (Fatal ''standard output'')),
                        events s @ [Diff_dirs (cmp_of par s), Fflush_stdout]))))"
proof -
  show cl: "classify C par s = Both_directories"
    using assms(2-6) by (simp add: classify_def)
  have a: "act E C par s = both_directories E C par s"
    by (simp add: act_def cl)
  have cf: "compare_files E C par n0 n1 =
      (case both_directories E C par s of Inl r \<Rightarrow> r | Inr s' \<Rightarrow> finish E C s')"
    by (simp add: compare_files_def assms(1) a)
  have d0: "DIR_P (emit es (s\<lparr>status := x\<rparr>)) 0" for es x
    using assms(5) by (simp add: DIR_P_simps)
  have d1: "DIR_P (emit es s) 0" for es
    using assms(5) by (simp add: DIR_P_simps)
  show "compare_files E C par n0 n1 =
      (if output_style C = OUTPUT_IFDEF
       then (Inl (Fatal ''-D option not supported with directories''), events s)
       else if par \<noteq> None \<and> \<not> recursive C
       then (Inr EXIT_SUCCESS,
             events s @ [Message (''Common subdirectories: '' @ name (f0 s) @ '' and ''
                                  @ name (f1 s) @ NL)])
       else (case diff_dirs E (cmp_of par s) of
               Inl m \<Rightarrow> (Inl (Fatal m), events s @ [Diff_dirs (cmp_of par s)])
             | Inr st \<Rightarrow>
                 (if st = 0 then (Inr EXIT_SUCCESS, events s @ [Diff_dirs (cmp_of par s)])
                  else ((if sys_fflush_stdout E = None then Inr (int st)
                         else Inl (Fatal ''standard output'')),
                        events s @ [Diff_dirs (cmp_of par s), Fflush_stdout]))))"
    unfolding cf
    using assms(2) d0 d1
    by (auto simp add: both_directories_def call_diff_dirs_def finish_cases status_defs
        split: sum.splits)
qed

subsection \<open>A file that exists in one directory only\<close>














subsection \<open>A call that ends in trouble\<close>

lemma finish_trouble:
  "status s \<noteq> EXIT_SUCCESS \<Longrightarrow>
     finish E C s =
       ((if sys_fflush_stdout E = None then Inr (status s) else Inl (Fatal ''standard output'')),
        events s @ [Fflush_stdout])"
  by (simp add: finish_def split: option.splits)

lemma trouble_trace:
  assumes "compare_files_begin E C par n0 n1 = Inr s0"
    and "failed (f0 (stat_and_mark E C par s0)) \<or> failed (f1 (stat_and_mark E C par s0))"
  shows "compare_files E C par n0 n1 =
           ((if sys_fflush_stdout E = None then Inr EXIT_TROUBLE
             else Inl (Fatal ''standard output'')),
            events (stat_and_mark E C par s0)
            @ error_report (f0 (stat_and_mark E C par s0))
            @ error_report (f1 (stat_and_mark E C par s0))
            @ [Fflush_stdout])"
proof -
  let ?r = "resolve E C par s0"
  note rf = resolve_fields [of E C par s0]
  have st: "status ?r = EXIT_TROUBLE" using assms(2) by (simp add: rf)
  then have ne: "status ?r \<noteq> EXIT_SUCCESS" by (simp add: status_defs)
  have p: "prepare E C par n0 n1 = Inr ?r"
    using assms(1) ne by (simp add: prepare_def dir_operand_def)
  have a: "act E C par ?r = Inr ?r"
    using ne by (simp add: act_def classify_def)
  have cf: "compare_files E C par n0 n1 = finish E C ?r"
    by (simp add: compare_files_def p a)
  show ?thesis
    by (simp add: cf finish_trouble [OF ne] st rf)
qed

lemma stat_and_mark_names:
  "name (f0 (stat_and_mark E C par s)) = name (f0 s)"
  "name (f1 (stat_and_mark E C par s)) = name (f1 s)"
  by (simp_all add: stat_and_mark_def clear_0 clear_1 mark_0 mark_1 stat_file_0 stat_file_1)

lemma top_level_names: "name (f0 (top_level E C a b)) = a" "name (f1 (top_level E C a b)) = b"
  by (simp_all add: top_level_def resolve_fields stat_and_mark_names)

lemma prepare_top_level:
  "prepare E C None (Some a) (Some b) = dir_operand E C None (top_level E C a b)"
  by (simp add: prepare_def compare_files_begin_def start_def top_level_def)

subsection \<open>A directory and a file on the command line\<close>

text \<open>The replacement of lines 1181-1202, when the guard of line 1181 holds.\<close>

lemma replaced_when_resolved:
  assumes "status (top_level E C a b) = EXIT_SUCCESS"
    and "DIR_P (top_level E C a b) 0 \<noteq> DIR_P (top_level E C a b) 1"
  shows
    "(DIR_P (top_level E C a b) 0 \<longrightarrow>
        (if b = ''-''
         then compare_files E C None (Some a) (Some b) =
                (Inl (Fatal (''cannot compare '' @ quoted ''-'' @ '' to a directory'')),
                 events (top_level E C a b))
         else \<exists>s. prepare E C None (Some a) (Some b) = Inr s
                \<and> name (f0 s) = find_dir_file_pathname E a (last_component E b)
                \<and> name (f1 s) = b
                \<and> (case (if no_dereference_symlinks C then sys_lstat E else sys_stat E)
                           (find_dir_file_pathname E a (last_component E b)) of
                      Inl e \<Rightarrow> status s = EXIT_TROUBLE
                    | Inr st \<Rightarrow> status s = EXIT_SUCCESS \<and> stat (f0 s) = st)))
     \<and> (DIR_P (top_level E C a b) 1 \<longrightarrow>
        (if a = ''-''
         then compare_files E C None (Some a) (Some b) =
                (Inl (Fatal (''cannot compare '' @ quoted ''-'' @ '' to a directory'')),
                 events (top_level E C a b))
         else \<exists>s. prepare E C None (Some a) (Some b) = Inr s
                \<and> name (f0 s) = a
                \<and> name (f1 s) = find_dir_file_pathname E b (last_component E a)
                \<and> (case (if no_dereference_symlinks C then sys_lstat E else sys_stat E)
                           (find_dir_file_pathname E b (last_component E a)) of
                      Inl e \<Rightarrow> status s = EXIT_TROUBLE
                    | Inr st \<Rightarrow> status s = EXIT_SUCCESS \<and> stat (f1 s) = st)))"
proof -
  let ?r = "top_level E C a b"
  have p: "prepare E C None (Some a) (Some b) = dir_operand E C None ?r"
    by (rule prepare_top_level)
  show ?thesis
  proof (cases "DIR_P ?r 0")
    case True
    then have n1: "\<not> DIR_P ?r (Suc 0)" using assms(2) by simp
    have "dir_operand E C None ?r = dir_operand_first E C ?r"
      using assms(1) True n1
      by (simp add: dir_operand_def dir_operand_first_def Let_def split: sum.splits)
    then have d: "prepare E C None (Some a) (Some b) = dir_operand_first E C ?r"
      using p by simp
    have "?thesis = (DIR_P ?r 0 \<longrightarrow>
       (if name (f1 ?r) = ''-''
         then (case dir_operand_first E C ?r of Inl r \<Rightarrow> r
               | Inr s \<Rightarrow> (case act E C None s of Inl r \<Rightarrow> r | Inr s' \<Rightarrow> finish E C s')) =
                (Inl (Fatal (''cannot compare '' @ quoted ''-'' @ '' to a directory'')),
                 events ?r)
         else \<exists>s. dir_operand_first E C ?r = Inr s
                \<and> name (f0 s) = find_dir_file_pathname E (name (f0 ?r)) (last_component E (name (f1 ?r)))
                \<and> name (f1 s) = name (f1 ?r)
                \<and> (case (if no_dereference_symlinks C then sys_lstat E else sys_stat E)
                           (find_dir_file_pathname E (name (f0 ?r)) (last_component E (name (f1 ?r)))) of
                      Inl e \<Rightarrow> status s = EXIT_TROUBLE
                    | Inr st \<Rightarrow> status s = EXIT_SUCCESS \<and> stat (f0 s) = st)))"
      using n1 unfolding compare_files_def d by (simp add: top_level_names)
    also have "\<dots>"
      using assms(1) by (simp add: dir_operand_first_def Let_def split: sum.splits)
    finally show ?thesis by simp
  next
    case False
    then have n1: "DIR_P ?r (Suc 0)" using assms(2) by simp
    have "dir_operand E C None ?r = dir_operand_second E C ?r"
      using assms(1) False n1
      by (simp add: dir_operand_def dir_operand_second_def Let_def split: sum.splits)
    then have d: "prepare E C None (Some a) (Some b) = dir_operand_second E C ?r"
      using p by simp
    have "?thesis = (DIR_P ?r 1 \<longrightarrow>
       (if name (f0 ?r) = ''-''
         then (case dir_operand_second E C ?r of Inl r \<Rightarrow> r
               | Inr s \<Rightarrow> (case act E C None s of Inl r \<Rightarrow> r | Inr s' \<Rightarrow> finish E C s')) =
                (Inl (Fatal (''cannot compare '' @ quoted ''-'' @ '' to a directory'')),
                 events ?r)
         else \<exists>s. dir_operand_second E C ?r = Inr s
                \<and> name (f0 s) = name (f0 ?r)
                \<and> name (f1 s) = find_dir_file_pathname E (name (f1 ?r)) (last_component E (name (f0 ?r)))
                \<and> (case (if no_dereference_symlinks C then sys_lstat E else sys_stat E)
                           (find_dir_file_pathname E (name (f1 ?r)) (last_component E (name (f0 ?r)))) of
                      Inl e \<Rightarrow> status s = EXIT_TROUBLE
                    | Inr st \<Rightarrow> status s = EXIT_SUCCESS \<and> stat (f1 s) = st)))"
      using False unfolding compare_files_def d by (simp add: top_level_names)
    also have "\<dots>"
      using assms(1) by (simp add: dir_operand_second_def Let_def split: sum.splits)
    finally show ?thesis by simp
  qed
qed

lemma top_level_status:
  "(status (top_level E C a b) = EXIT_SUCCESS) =
     (\<not> failed (f0 (top_level E C a b)) \<and> \<not> failed (f1 (top_level E C a b)))"
  by (simp add: top_level_def resolve_fields status_defs)

lemma top_level_absent_mode:
  assumes "desc (f0 (top_level E C a b)) = NONEXISTENT \<or> desc (f1 (top_level E C a b)) = NONEXISTENT"
  shows "st_mode (stat (f0 (top_level E C a b))) = st_mode (stat (f1 (top_level E C a b)))"
  using assms stat_and_mark_absent_mode [of E C None]
  by (simp add: top_level_def resolve_fields)

lemma not_replaced:
  assumes "\<not> (status (top_level E C a b) = EXIT_SUCCESS
              \<and> DIR_P (top_level E C a b) 0 \<noteq> DIR_P (top_level E C a b) 1)"
  shows "prepare E C None (Some a) (Some b) = Inr (top_level E C a b)"
  using assms by (auto simp add: prepare_top_level dir_operand_def)

text \<open>
  C10, as amended. Let the state at line 1181 be that of a top-level pair. When both
  operands were found (no slot failed, none counts as absent under \<open>-N\<close> or \<open>-P\<close>)
  and exactly one of them is a directory: if the other operand is \<open>-\<close>, the run is
  ended by \<open>fatal\<close> with the message \<open>cannot compare '-' to a directory\<close> and no
  status is returned; otherwise the chain of tests sees, in the directory's slot, the
  name \<open>find_dir_file_pathname dir (last_component other)\<close> and that file's
  metadata (or \<open>EXIT_TROUBLE\<close> if it cannot be stat'ed), while the other slot keeps
  its name. In every other case nothing is replaced and both slots keep the names
  given. In particular, when a slot failed the call reports nothing more and returns
  \<open>EXIT_TROUBLE\<close>, also for \<open>-\<close> against a directory; and when a slot is absent it
  carries the file type of the other (lines 1166-1170), so that a directory against an
  absent operand is a pair of directories: unless the output style of \<open>-D\<close> ends the
  run, \<open>diff_dirs\<close> is called on the operands as given.
\<close>

theorem directory_operand_replaced:
  "(present (f0 (top_level E C a b)) \<and> present (f1 (top_level E C a b))
      \<and> DIR_P (top_level E C a b) 0 \<and> \<not> DIR_P (top_level E C a b) 1 \<longrightarrow>
        (if b = ''-''
         then compare_files E C None (Some a) (Some b) =
                (Inl (Fatal (''cannot compare '' @ quoted ''-'' @ '' to a directory'')),
                 events (top_level E C a b))
         else \<exists>s. prepare E C None (Some a) (Some b) = Inr s
                \<and> name (f0 s) = find_dir_file_pathname E a (last_component E b)
                \<and> name (f1 s) = b
                \<and> (case (if no_dereference_symlinks C then sys_lstat E else sys_stat E)
                           (find_dir_file_pathname E a (last_component E b)) of
                      Inl e \<Rightarrow> status s = EXIT_TROUBLE
                    | Inr st \<Rightarrow> status s = EXIT_SUCCESS \<and> stat (f0 s) = st)))
   \<and> (present (f0 (top_level E C a b)) \<and> present (f1 (top_level E C a b))
      \<and> \<not> DIR_P (top_level E C a b) 0 \<and> DIR_P (top_level E C a b) 1 \<longrightarrow>
        (if a = ''-''
         then compare_files E C None (Some a) (Some b) =
                (Inl (Fatal (''cannot compare '' @ quoted ''-'' @ '' to a directory'')),
                 events (top_level E C a b))
         else \<exists>s. prepare E C None (Some a) (Some b) = Inr s
                \<and> name (f0 s) = a
                \<and> name (f1 s) = find_dir_file_pathname E b (last_component E a)
                \<and> (case (if no_dereference_symlinks C then sys_lstat E else sys_stat E)
                           (find_dir_file_pathname E b (last_component E a)) of
                      Inl e \<Rightarrow> status s = EXIT_TROUBLE
                    | Inr st \<Rightarrow> status s = EXIT_SUCCESS \<and> stat (f1 s) = st)))
   \<and> (\<not> (present (f0 (top_level E C a b)) \<and> present (f1 (top_level E C a b))
           \<and> DIR_P (top_level E C a b) 0 \<noteq> DIR_P (top_level E C a b) 1) \<longrightarrow>
        prepare E C None (Some a) (Some b) = Inr (top_level E C a b)
        \<and> name (f0 (top_level E C a b)) = a \<and> name (f1 (top_level E C a b)) = b)
   \<and> (failed (f0 (top_level E C a b)) \<or> failed (f1 (top_level E C a b)) \<longrightarrow>
        compare_files E C None (Some a) (Some b) =
          ((if sys_fflush_stdout E = None then Inr EXIT_TROUBLE
            else Inl (Fatal ''standard output'')),
           events (top_level E C a b) @ [Fflush_stdout]))
   \<and> ((desc (f0 (top_level E C a b)) = NONEXISTENT \<and> present (f1 (top_level E C a b))
          \<and> DIR_P (top_level E C a b) 1)
        \<or> (present (f0 (top_level E C a b)) \<and> DIR_P (top_level E C a b) 0
          \<and> desc (f1 (top_level E C a b)) = NONEXISTENT) \<longrightarrow>
        DIR_P (top_level E C a b) 0 \<and> DIR_P (top_level E C a b) 1
        \<and> (output_style C \<noteq> OUTPUT_IFDEF \<longrightarrow>
             compare_files E C None (Some a) (Some b) =
               (case diff_dirs E (cmp_of None (top_level E C a b)) of
                  Inl m \<Rightarrow> (Inl (Fatal m),
                            events (top_level E C a b)
                            @ [Diff_dirs (cmp_of None (top_level E C a b))])
                | Inr st \<Rightarrow>
                    (if st = 0
                     then (Inr EXIT_SUCCESS,
                           events (top_level E C a b)
                           @ [Diff_dirs (cmp_of None (top_level E C a b))])
                     else ((if sys_fflush_stdout E = None then Inr (int st)
                            else Inl (Fatal ''standard output'')),
                           events (top_level E C a b)
                           @ [Diff_dirs (cmp_of None (top_level E C a b)), Fflush_stdout])))))"
  (is "?first \<and> ?second \<and> ?rest \<and> ?fail \<and> ?absent")
proof -
  let ?r = "top_level E C a b"
  have st: "present (f0 ?r) \<Longrightarrow> present (f1 ?r) \<Longrightarrow> status ?r = EXIT_SUCCESS"
    by (simp add: top_level_status present_def)
  have first: ?first
  proof (intro impI)
    assume h: "present (f0 ?r) \<and> present (f1 ?r) \<and> DIR_P ?r 0 \<and> \<not> DIR_P ?r 1"
    then have s: "status ?r = EXIT_SUCCESS" and d: "DIR_P ?r 0 \<noteq> DIR_P ?r 1" "DIR_P ?r 0"
      using st by auto
    from replaced_when_resolved [OF s d(1)] d(2)
    show "if b = ''-''
         then compare_files E C None (Some a) (Some b) =
                (Inl (Fatal (''cannot compare '' @ quoted ''-'' @ '' to a directory'')),
                 events ?r)
         else \<exists>s. prepare E C None (Some a) (Some b) = Inr s
                \<and> name (f0 s) = find_dir_file_pathname E a (last_component E b)
                \<and> name (f1 s) = b
                \<and> (case (if no_dereference_symlinks C then sys_lstat E else sys_stat E)
                           (find_dir_file_pathname E a (last_component E b)) of
                      Inl e \<Rightarrow> status s = EXIT_TROUBLE
                    | Inr st \<Rightarrow> status s = EXIT_SUCCESS \<and> stat (f0 s) = st)"
      by blast
  qed
  have second: ?second
  proof (intro impI)
    assume h: "present (f0 ?r) \<and> present (f1 ?r) \<and> \<not> DIR_P ?r 0 \<and> DIR_P ?r 1"
    then have s: "status ?r = EXIT_SUCCESS" and d: "DIR_P ?r 0 \<noteq> DIR_P ?r 1" "DIR_P ?r 1"
      using st by auto
    from replaced_when_resolved [OF s d(1)] d(2)
    show "if a = ''-''
         then compare_files E C None (Some a) (Some b) =
                (Inl (Fatal (''cannot compare '' @ quoted ''-'' @ '' to a directory'')),
                 events ?r)
         else \<exists>s. prepare E C None (Some a) (Some b) = Inr s
                \<and> name (f0 s) = a
                \<and> name (f1 s) = find_dir_file_pathname E b (last_component E a)
                \<and> (case (if no_dereference_symlinks C then sys_lstat E else sys_stat E)
                           (find_dir_file_pathname E b (last_component E a)) of
                      Inl e \<Rightarrow> status s = EXIT_TROUBLE
                    | Inr st \<Rightarrow> status s = EXIT_SUCCESS \<and> stat (f1 s) = st)"
      by blast
  qed
  have am: "desc (f0 ?r) = NONEXISTENT \<or> desc (f1 ?r) = NONEXISTENT \<Longrightarrow> DIR_P ?r 0 = DIR_P ?r 1"
    using top_level_absent_mode [of E C a b] by (simp add: DIR_P_simps)
  have rest: ?rest
  proof (intro impI)
    assume h: "\<not> (present (f0 ?r) \<and> present (f1 ?r) \<and> DIR_P ?r 0 \<noteq> DIR_P ?r 1)"
    have "\<not> (status ?r = EXIT_SUCCESS \<and> DIR_P ?r 0 \<noteq> DIR_P ?r 1)"
      using h am by (auto simp add: top_level_status present_def)
    then show "prepare E C None (Some a) (Some b) = Inr ?r
        \<and> name (f0 ?r) = a \<and> name (f1 ?r) = b"
      by (simp add: not_replaced top_level_names)
  qed
  have fail: ?fail
  proof (intro impI)
    assume f: "failed (f0 ?r) \<or> failed (f1 ?r)"
    then have ne: "status ?r \<noteq> EXIT_SUCCESS" by (simp add: top_level_status)
    have tr: "status ?r = EXIT_TROUBLE"
      using f by (auto simp add: top_level_def resolve_fields)
    have p: "prepare E C None (Some a) (Some b) = Inr ?r"
      using ne by (simp add: not_replaced)
    have a: "act E C None ?r = Inr ?r"
      using ne by (simp add: act_def classify_def)
    show "compare_files E C None (Some a) (Some b) =
          ((if sys_fflush_stdout E = None then Inr EXIT_TROUBLE
            else Inl (Fatal ''standard output'')),
           events ?r @ [Fflush_stdout])"
      by (simp add: compare_files_def p a finish_trouble [OF ne] tr)
  qed
  have absent: ?absent
  proof (intro impI)
    assume h: "(desc (f0 ?r) = NONEXISTENT \<and> present (f1 ?r) \<and> DIR_P ?r 1)
        \<or> (present (f0 ?r) \<and> DIR_P ?r 0 \<and> desc (f1 ?r) = NONEXISTENT)"
    then have eq: "DIR_P ?r 0 = DIR_P ?r 1" using am by blast
    with h have d: "DIR_P ?r 0" "DIR_P ?r 1" by auto
    have nf: "\<not> failed (f0 ?r)" "\<not> failed (f1 ?r)"
      using h by (auto simp add: present_def absent_not_failed)
    then have s: "status ?r = EXIT_SUCCESS" by (simp add: top_level_status)
    have p: "prepare E C None (Some a) (Some b) = Inr ?r"
      using eq by (simp add: not_replaced)
    have nb: "\<not> (desc (f0 ?r) = NONEXISTENT \<and> desc (f1 ?r) = NONEXISTENT)"
      using h by (auto simp add: present_def)
    have sf: "\<not> (same_files ?r \<and> no_diff_means_no_output C)"
      using h by (auto simp add: same_files_def)
    note run = both_directories_run(2) [OF p s nb sf d]
    show "DIR_P ?r 0 \<and> DIR_P ?r 1
        \<and> (output_style C \<noteq> OUTPUT_IFDEF \<longrightarrow>
             compare_files E C None (Some a) (Some b) =
               (case diff_dirs E (cmp_of None ?r) of
                  Inl m \<Rightarrow> (Inl (Fatal m), events ?r @ [Diff_dirs (cmp_of None ?r)])
                | Inr st \<Rightarrow>
                    (if st = 0
                     then (Inr EXIT_SUCCESS, events ?r @ [Diff_dirs (cmp_of None ?r)])
                     else ((if sys_fflush_stdout E = None then Inr (int st)
                            else Inl (Fatal ''standard output'')),
                           events ?r @ [Diff_dirs (cmp_of None ?r), Fflush_stdout]))))"
      using d run by simp
  qed
  show ?thesis using first second rest fail absent by blast
qed


theorem directory_operand_replaced_witness:
  "present (f0 (top_level ex_env (main_flags ex_options) ''d'' ''a''))
   \<and> present (f1 (top_level ex_env (main_flags ex_options) ''d'' ''a''))
   \<and> DIR_P (top_level ex_env (main_flags ex_options) ''d'' ''a'') 0
   \<and> \<not> DIR_P (top_level ex_env (main_flags ex_options) ''d'' ''a'') 1
   \<and> (\<exists>s. prepare ex_env (main_flags ex_options) None (Some ''d'') (Some ''a'') = Inr s
         \<and> name (f0 s) = ''d/a'' \<and> name (f1 s) = ''a''
         \<and> status s = EXIT_SUCCESS \<and> stat (f0 s) = ex_reg 12 3)
   \<and> present (f0 (top_level ex_env (main_flags ex_options) ''-'' ''d''))
   \<and> present (f1 (top_level ex_env (main_flags ex_options) ''-'' ''d''))
   \<and> \<not> DIR_P (top_level ex_env (main_flags ex_options) ''-'' ''d'') 0
   \<and> DIR_P (top_level ex_env (main_flags ex_options) ''-'' ''d'') 1
   \<and> compare_files ex_env (main_flags ex_options) None (Some ''-'') (Some ''d'') =
       (Inl (Fatal (''cannot compare '' @ quoted ''-'' @ '' to a directory'')),
        [Set_binary_mode_stdin, Fstat_stdin, Lseek_stdin, Gettime, Stat ''d''])
   \<and> failed (f1 (top_level ex_env (main_flags ex_options) ''d'' ''x''))
   \<and> prepare ex_env (main_flags ex_options) None (Some ''d'') (Some ''x'') =
       Inr (top_level ex_env (main_flags ex_options) ''d'' ''x'')
   \<and> name (f0 (top_level ex_env (main_flags ex_options) ''d'' ''x'')) = ''d''
   \<and> compare_files ex_env (main_flags ex_options) None (Some ''d'') (Some ''x'') =
       (Inr EXIT_TROUBLE, [Stat ''d'', Stat ''x'', Perror_with_name ''x'' ENOENT, Fflush_stdout])
   \<and> desc (f0 (top_level ex_env (main_flags (ex_options\<lparr>new_file := True\<rparr>)) ''x'' ''d''))
       = NONEXISTENT
   \<and> present (f1 (top_level ex_env (main_flags (ex_options\<lparr>new_file := True\<rparr>)) ''x'' ''d''))
   \<and> DIR_P (top_level ex_env (main_flags (ex_options\<lparr>new_file := True\<rparr>)) ''x'' ''d'') 0
   \<and> DIR_P (top_level ex_env (main_flags (ex_options\<lparr>new_file := True\<rparr>)) ''x'' ''d'') 1
   \<and> compare_files ex_env (main_flags (ex_options\<lparr>new_file := True\<rparr>)) None
        (Some ''x'') (Some ''d'') =
       (Inr 1,
        [Stat ''x'', Stat ''d'',
         Diff_dirs (Comparison
           \<lparr>desc = NONEXISTENT, name = ''x'', stat = zero_stat\<lparr>st_mode := st_mode (ex_dir 20)\<rparr>\<rparr>
           \<lparr>desc = UNOPENED, name = ''d'', stat = ex_dir 20\<rparr> None),
         Fflush_stdout])"
proof -
  let ?C = "main_flags ex_options"
  let ?N = "main_flags (ex_options\<lparr>new_file := True\<rparr>)"
  let ?r = "top_level ex_env ?C ''d'' ''a''"
  let ?q = "top_level ex_env ?C ''-'' ''d''"
  let ?u = "top_level ex_env ?C ''d'' ''x''"
  let ?v = "top_level ex_env ?N ''x'' ''d''"
  have h: "present (f0 ?r)" "present (f1 ?r)" "DIR_P ?r 0" "\<not> DIR_P ?r 1"
    by code_simp+
  have n: "find_dir_file_pathname ex_env ''d'' (last_component ex_env ''a'') = ''d/a''"
    by code_simp
  have l: "\<not> no_dereference_symlinks ?C" by code_simp
  have st: "sys_stat ex_env ''d/a'' = Inr (ex_reg 12 3)" by code_simp
  note t1 = directory_operand_replaced [of ex_env ?C "''d''" "''a''"]
  from t1 h n l st
  have first: "\<exists>s. prepare ex_env ?C None (Some ''d'') (Some ''a'') = Inr s
         \<and> name (f0 s) = ''d/a'' \<and> name (f1 s) = ''a''
         \<and> status s = EXIT_SUCCESS \<and> stat (f0 s) = ex_reg 12 3"
    by simp
  have g: "present (f0 ?q)" "present (f1 ?q)" "\<not> DIR_P ?q 0" "DIR_P ?q 1"
    by code_simp+
  have ev: "events ?q = [Set_binary_mode_stdin, Fstat_stdin, Lseek_stdin, Gettime, Stat ''d'']"
    by code_simp
  note t2 = directory_operand_replaced [of ex_env ?C "''-''" "''d''"]
  from t2 g ev
  have second: "compare_files ex_env ?C None (Some ''-'') (Some ''d'') =
       (Inl (Fatal (''cannot compare '' @ quoted ''-'' @ '' to a directory'')),
        [Set_binary_mode_stdin, Fstat_stdin, Lseek_stdin, Gettime, Stat ''d''])"
    by simp
  have f: "failed (f1 ?u)" by code_simp
  have fe: "events ?u = [Stat ''d'', Stat ''x'', Perror_with_name ''x'' ENOENT]"
    "sys_fflush_stdout ex_env = None"
    by code_simp+
  note t3 = directory_operand_replaced [of ex_env ?C "''d''" "''x''"]
  have np: "\<not> present (f1 ?u)" using f by (simp add: present_def)
  from t3 f np fe
  have third: "prepare ex_env ?C None (Some ''d'') (Some ''x'') = Inr ?u"
    "name (f0 ?u) = ''d''"
    "compare_files ex_env ?C None (Some ''d'') (Some ''x'') =
       (Inr EXIT_TROUBLE, [Stat ''d'', Stat ''x'', Perror_with_name ''x'' ENOENT, Fflush_stdout])"
    by simp_all
  have k: "desc (f0 ?v) = NONEXISTENT" "present (f1 ?v)" "DIR_P ?v 1"
    by code_simp+
  have kc: "output_style ?N \<noteq> OUTPUT_IFDEF"
    "events ?v = [Stat ''x'', Stat ''d'']"
    "cmp_of None ?v = Comparison
           \<lparr>desc = NONEXISTENT, name = ''x'', stat = zero_stat\<lparr>st_mode := st_mode (ex_dir 20)\<rparr>\<rparr>
           \<lparr>desc = UNOPENED, name = ''d'', stat = ex_dir 20\<rparr> None"
    by code_simp+
  have dd: "diff_dirs ex_env = (\<lambda>c. Inr 1)" by (simp add: ex_env_def)
  note t4 = directory_operand_replaced [of ex_env ?N "''x''" "''d''"]
  from t4 k kc fe(2) dd
  have fourth: "DIR_P ?v 0" "DIR_P ?v 1"
    "compare_files ex_env ?N None (Some ''x'') (Some ''d'') =
       (Inr 1,
        [Stat ''x'', Stat ''d'',
         Diff_dirs (Comparison
           \<lparr>desc = NONEXISTENT, name = ''x'', stat = zero_stat\<lparr>st_mode := st_mode (ex_dir 20)\<rparr>\<rparr>
           \<lparr>desc = UNOPENED, name = ''d'', stat = ex_dir 20\<rparr> None),
         Fflush_stdout])"
    by simp_all
  show ?thesis
    using h first g second f third k(1,2) fourth by simp
qed

text \<open>
  The claim as stated asks only that exactly one operand be a directory. The guard of
  line 1181 also asks that both operands resolved: \<open>diff d x\<close> with no file \<open>x\<close>
  keeps the name \<open>d\<close> and never looks at \<open>d/x\<close>; \<open>diff - d\<close> with a standard
  input that cannot be stat'ed returns \<open>EXIT_TROUBLE\<close> instead of ending the run; and
  \<open>diff -N x d\<close> walks the directory \<open>d\<close> against the absent \<open>x\<close>, without looking at
  \<open>d/x\<close>.
\<close>

theorem directory_operand_counterexample:
  "prepare ex_env (main_flags ex_options) None (Some ''d'') (Some ''x'') =
     Inr \<lparr>f0 = \<lparr>desc = UNOPENED, name = ''d'', stat = ex_dir 20\<rparr>,
          f1 = \<lparr>desc = ERRNO_ENCODE ENOENT, name = ''x'', stat = zero_stat\<rparr>,
          name0 = ''d'', status = EXIT_TROUBLE,
          events = [Stat ''d'', Stat ''x'', Perror_with_name ''x'' ENOENT]\<rparr>
   \<and> S_ISDIR (st_mode (ex_dir 20))
   \<and> \<not> S_ISDIR (st_mode zero_stat)
   \<and> find_dir_file_pathname ex_env ''d'' (last_component ex_env ''x'') = ''d/x''
   \<and> compare_files ex_env (main_flags ex_options) None (Some ''d'') (Some ''x'') =
       (Inr EXIT_TROUBLE, [Stat ''d'', Stat ''x'', Perror_with_name ''x'' ENOENT, Fflush_stdout])
   \<and> compare_files (ex_env\<lparr>sys_fstat_stdin := Inl EBADF\<rparr>) (main_flags ex_options) None
        (Some ''-'') (Some ''d'') =
       (Inr EXIT_TROUBLE,
        [Set_binary_mode_stdin, Fstat_stdin, Stat ''d'', Perror_with_name ''-'' EBADF,
         Fflush_stdout])
   \<and> sys_stat ex_env ''x'' = Inl ENOENT
   \<and> sys_stat ex_env ''d'' = Inr (ex_dir 20)
   \<and> prepare ex_env (main_flags (ex_options\<lparr>new_file := True\<rparr>)) None (Some ''x'') (Some ''d'') =
     Inr \<lparr>f0 = \<lparr>desc = NONEXISTENT, name = ''x'',
                stat = zero_stat\<lparr>st_mode := st_mode (ex_dir 20)\<rparr>\<rparr>,
          f1 = \<lparr>desc = UNOPENED, name = ''d'', stat = ex_dir 20\<rparr>,
          name0 = ''x'', status = EXIT_SUCCESS, events = [Stat ''x'', Stat ''d'']\<rparr>
   \<and> compare_files ex_env (main_flags (ex_options\<lparr>new_file := True\<rparr>)) None
        (Some ''x'') (Some ''d'') =
       (Inr 1,
        [Stat ''x'', Stat ''d'',
         Diff_dirs (Comparison
           \<lparr>desc = NONEXISTENT, name = ''x'', stat = zero_stat\<lparr>st_mode := st_mode (ex_dir 20)\<rparr>\<rparr>
           \<lparr>desc = UNOPENED, name = ''d'', stat = ex_dir 20\<rparr> None),
         Fflush_stdout])"
  by code_simp

subsection \<open>A slot that failed to resolve\<close>

lemma top_level_events:
  assumes "status (top_level E C a b) = EXIT_SUCCESS"
  shows "list_all resolution_event (events (top_level E C a b))"
proof -
  let ?s0 = "\<lparr>f0 = \<lparr>desc = UNOPENED, name = a, stat = zero_stat\<rparr>,
        f1 = \<lparr>desc = UNOPENED, name = b, stat = zero_stat\<rparr>,
        name0 = a, status = EXIT_SUCCESS, events = []\<rparr>"
  obtain es where es: "events (stat_and_mark E C None ?s0) = es" "list_all resolution_event es"
    using stat_and_mark_events [of E C None ?s0] by auto
  have nf: "\<not> failed (f0 (top_level E C a b))" "\<not> failed (f1 (top_level E C a b))"
    using assms top_level_status by blast+
  then show ?thesis
    using es by (simp add: top_level_def resolve_fields error_report_def)
qed

lemma trouble_after_prepare:
  assumes "prepare E C par n0 n1 = Inr s" and "status s = EXIT_TROUBLE"
  shows "compare_files E C par n0 n1 =
           ((if sys_fflush_stdout E = None then Inr EXIT_TROUBLE
             else Inl (Fatal ''standard output'')),
            events s @ [Fflush_stdout])"
proof -
  have ne: "status s \<noteq> EXIT_SUCCESS" using assms(2) by (simp add: status_defs)
  have a: "act E C par s = Inr s" using ne by (simp add: act_def classify_def)
  show ?thesis by (simp add: compare_files_def assms(1) a finish_trouble [OF ne] assms(2))
qed

lemma replacement_fails:
  assumes "status (top_level E C a b) = EXIT_SUCCESS"
    and "DIR_P (top_level E C a b) 0 \<noteq> DIR_P (top_level E C a b) 1"
    and "(if DIR_P (top_level E C a b) 0 then b else a) \<noteq> ''-''"
    and "(if no_dereference_symlinks C then sys_lstat E else sys_stat E)
           (find_dir_file_pathname E (if DIR_P (top_level E C a b) 0 then a else b)
              (last_component E (if DIR_P (top_level E C a b) 0 then b else a))) = Inl e"
  shows "compare_files E C None (Some a) (Some b) =
           ((if sys_fflush_stdout E = None then Inr EXIT_TROUBLE
             else Inl (Fatal ''standard output'')),
            events (top_level E C a b)
            @ [(if no_dereference_symlinks C then Lstat else Stat)
                 (find_dir_file_pathname E (if DIR_P (top_level E C a b) 0 then a else b)
                    (last_component E (if DIR_P (top_level E C a b) 0 then b else a))),
               Perror_with_name
                 (find_dir_file_pathname E (if DIR_P (top_level E C a b) 0 then a else b)
                    (last_component E (if DIR_P (top_level E C a b) 0 then b else a))) e,
               Fflush_stdout])"
proof -
  let ?r = "top_level E C a b"
  let ?fn = "find_dir_file_pathname E (if DIR_P ?r 0 then a else b)
                    (last_component E (if DIR_P ?r 0 then b else a))"
  let ?ev = "[(if no_dereference_symlinks C then Lstat else Stat) ?fn, Perror_with_name ?fn e]"
  have "\<exists>s. dir_operand E C None ?r = Inr s \<and> status s = EXIT_TROUBLE
        \<and> events s = events ?r @ ?ev"
  proof (cases "DIR_P ?r 0")
    case True
    then have n1: "\<not> DIR_P ?r (Suc 0)" using assms(2) by simp
    show ?thesis
      using assms(1,3,4) True n1
      by (cases "no_dereference_symlinks C")
         (auto simp add: dir_operand_def Let_def top_level_names)
  next
    case False
    then have n1: "DIR_P ?r (Suc 0)" using assms(2) by simp
    show ?thesis
      using assms(1,3,4) False n1
      by (cases "no_dereference_symlinks C")
         (auto simp add: dir_operand_def Let_def top_level_names)
  qed
  then obtain s where s: "prepare E C None (Some a) (Some b) = Inr s"
    "status s = EXIT_TROUBLE" "events s = events ?r @ ?ev"
    by (auto simp add: prepare_top_level)
  show ?thesis
    using trouble_after_prepare [OF s(1) s(2)] by (simp add: s(3))
qed


lemma resolution_not_comparison:
  "list_all resolution_event es \<Longrightarrow> list_all (\<lambda>e. \<not> comparison_event e) es"
proof (induction es)
  case Nil
  then show ?case by simp
next
  case (Cons e es)
  then show ?case by (cases e) simp_all
qed

lemma open_close_events:
  "\<exists>es. events (open0 E s) = events s @ es \<and> list_all (\<lambda>e. \<not> comparison_event e) es"
  "\<exists>es. events (open1 E sf s) = events s @ es \<and> list_all (\<lambda>e. \<not> comparison_event e) es"
  "\<exists>es. events (close0 E s) = events s @ es \<and> list_all (\<lambda>e. \<not> comparison_event e) es"
  "\<exists>es. events (close1 E s) = events s @ es \<and> list_all (\<lambda>e. \<not> comparison_event e) es"
  by (simp_all add: open0_def open1_def close0_def close1_def split: sum.splits option.splits)

lemma trouble_kept:
  "status s = EXIT_TROUBLE \<Longrightarrow> status (open1 E sf s) = EXIT_TROUBLE"
  "status s = EXIT_TROUBLE \<Longrightarrow> status (close0 E s) = EXIT_TROUBLE"
  "status s = EXIT_TROUBLE \<Longrightarrow> status (close1 E s) = EXIT_TROUBLE"
  by (simp_all add: open1_def close0_def close1_def split: sum.splits option.splits)

lemma open_status:
  "status s = EXIT_SUCCESS \<Longrightarrow>
     status (open1 E sf (open0 E s)) = EXIT_SUCCESS
     \<or> status (open1 E sf (open0 E s)) = EXIT_TROUBLE"
  by (simp add: open0_def open1_def split: sum.splits)

lemma open_fail_run:
  assumes "prepare E C par n0 n1 = Inr s"
    and "classify C par s = Compare_contents"
    and "status (open1 E (same_files s) (open0 E s)) \<noteq> EXIT_SUCCESS"
  shows "compare_files E C par n0 n1 =
           ((if sys_fflush_stdout E = None then Inr EXIT_TROUBLE
             else Inl (Fatal ''standard output'')),
            events (close1 E (close0 E (open1 E (same_files s) (open0 E s))))
            @ [Fflush_stdout])"
proof -
  let ?s1 = "open1 E (same_files s) (open0 E s)"
  let ?s2 = "close1 E (close0 E ?s1)"
  have st: "status s = EXIT_SUCCESS"
    using assms(2) by (simp add: classify_def split: if_splits)
  have t1: "status ?s1 = EXIT_TROUBLE"
    using open_status [OF st, of E "same_files s"] assms(3) by blast
  have t2: "status ?s2 = EXIT_TROUBLE" by (simp add: trouble_kept t1)
  then have ne: "status ?s2 \<noteq> EXIT_SUCCESS" by (simp add: status_defs)
  have a: "act E C par s = Inr ?s2"
    using assms(3) by (simp add: act_def assms(2) compare_contents_def Let_def)
  show ?thesis
    by (simp add: compare_files_def assms(1) a finish_trouble [OF ne] t2)
qed

lemma open0_fails:
  assumes "desc (f0 s) = UNOPENED" and "sys_open E (name (f0 s)) = Inl e"
  shows "status (open0 E s) = EXIT_TROUBLE"
    and "events (open0 E s) =
           events s @ [Open_file (name (f0 s)), Perror_with_name (name (f0 s)) e]"
  using assms by (simp_all add: open0_def)

lemma open1_fails:
  assumes "desc (f1 s) = UNOPENED" and "\<not> sf" and "sys_open E (name (f1 s)) = Inl e"
  shows "status (open1 E sf s) = EXIT_TROUBLE"
    and "events (open1 E sf s) =
           events s @ [Open_file (name (f1 s)), Perror_with_name (name (f1 s)) e]"
  using assms by (simp_all add: open1_def)

lemma open0_frame: "f1 (open0 E s) = f1 s"
  by (simp add: open0_def split: sum.splits)

lemma first_open_fails:
  assumes "prepare E C par n0 n1 = Inr s"
    and "classify C par s = Compare_contents"
    and "desc (f0 s) = UNOPENED" and "sys_open E (name (f0 s)) = Inl e"
  shows "\<exists>es. compare_files E C par n0 n1 =
           ((if sys_fflush_stdout E = None then Inr EXIT_TROUBLE
             else Inl (Fatal ''standard output'')),
            events s @ [Open_file (name (f0 s)), Perror_with_name (name (f0 s)) e]
            @ es @ [Fflush_stdout])
         \<and> list_all (\<lambda>e. \<not> comparison_event e) es"
proof -
  let ?s0 = "open0 E s"
  let ?s1 = "open1 E (same_files s) ?s0"
  let ?s2 = "close0 E ?s1"
  let ?s3 = "close1 E ?s2"
  have t: "status ?s1 = EXIT_TROUBLE"
    using open0_fails(1) [OF assms(3,4)] by (simp add: trouble_kept)
  then have ne: "status ?s1 \<noteq> EXIT_SUCCESS" by (simp add: status_defs)
  obtain a where a: "events ?s1 = events ?s0 @ a" "list_all (\<lambda>e. \<not> comparison_event e) a"
    using open_close_events(2) [of E "same_files s" ?s0] by blast
  obtain b where b: "events ?s2 = events ?s1 @ b" "list_all (\<lambda>e. \<not> comparison_event e) b"
    using open_close_events(3) [of E ?s1] by blast
  obtain c where c: "events ?s3 = events ?s2 @ c" "list_all (\<lambda>e. \<not> comparison_event e) c"
    using open_close_events(4) [of E ?s2] by blast
  have ev: "events ?s3 =
      events s @ [Open_file (name (f0 s)), Perror_with_name (name (f0 s)) e] @ (a @ b @ c)"
    by (simp add: a(1) b(1) c(1) open0_fails(2) [OF assms(3,4)])
  have "list_all (\<lambda>e. \<not> comparison_event e) (a @ b @ c)" using a(2) b(2) c(2) by simp
  then show ?thesis
    using open_fail_run [OF assms(1,2) ne] ev by (metis append.assoc)
qed

lemma second_open_fails:
  assumes "prepare E C par n0 n1 = Inr s"
    and "classify C par s = Compare_contents"
    and "desc (f1 s) = UNOPENED" and "\<not> same_files s"
    and "sys_open E (name (f1 s)) = Inl e"
  shows "\<exists>es es'. compare_files E C par n0 n1 =
           ((if sys_fflush_stdout E = None then Inr EXIT_TROUBLE
             else Inl (Fatal ''standard output'')),
            events s @ es @ [Open_file (name (f1 s)), Perror_with_name (name (f1 s)) e]
            @ es' @ [Fflush_stdout])
         \<and> list_all (\<lambda>e. \<not> comparison_event e) es
         \<and> list_all (\<lambda>e. \<not> comparison_event e) es'"
proof -
  let ?s0 = "open0 E s"
  let ?s1 = "open1 E (same_files s) ?s0"
  let ?s2 = "close0 E ?s1"
  let ?s3 = "close1 E ?s2"
  have h: "desc (f1 ?s0) = UNOPENED" "sys_open E (name (f1 ?s0)) = Inl e"
    using assms(3,5) by (simp_all add: open0_frame)
  note o = open1_fails [OF h(1) assms(4) h(2)]
  have ne: "status ?s1 \<noteq> EXIT_SUCCESS" using o(1) by (simp add: status_defs)
  obtain a where a: "events ?s0 = events s @ a" "list_all (\<lambda>e. \<not> comparison_event e) a"
    using open_close_events(1) [of E s] by blast
  obtain b where b: "events ?s2 = events ?s1 @ b" "list_all (\<lambda>e. \<not> comparison_event e) b"
    using open_close_events(3) [of E ?s1] by blast
  obtain c where c: "events ?s3 = events ?s2 @ c" "list_all (\<lambda>e. \<not> comparison_event e) c"
    using open_close_events(4) [of E ?s2] by blast
  have ev: "events ?s3 =
      events s @ a @ [Open_file (name (f1 s)), Perror_with_name (name (f1 s)) e] @ (b @ c)"
    by (simp add: a(1) b(1) c(1) o(2) open0_frame)
  have bc: "list_all (\<lambda>e. \<not> comparison_event e) (b @ c)" using b(2) c(2) by simp
  have "compare_files E C par n0 n1 =
           ((if sys_fflush_stdout E = None then Inr EXIT_TROUBLE
             else Inl (Fatal ''standard output'')),
            events s @ a @ [Open_file (name (f1 s)), Perror_with_name (name (f1 s)) e]
            @ (b @ c) @ [Fflush_stdout])"
    using open_fail_run [OF assms(1,2) ne] ev by simp
  then show ?thesis using a(2) bc by blast
qed


lemma two_files_open_fails:
  assumes "prepare E C par n0 n1 = Inr s"
    and "classify C par s = Compare_contents"
    and "desc (f0 s) = UNOPENED" and "desc (f1 s) = UNOPENED" and "\<not> same_files s"
  shows "sys_open E (name (f0 s)) = Inl e0 \<Longrightarrow> sys_open E (name (f1 s)) = Inl e1 \<Longrightarrow>
           compare_files E C par n0 n1 =
             ((if sys_fflush_stdout E = None then Inr EXIT_TROUBLE
               else Inl (Fatal ''standard output'')),
              events s @ [Open_file (name (f0 s)), Perror_with_name (name (f0 s)) e0,
                          Open_file (name (f1 s)), Perror_with_name (name (f1 s)) e1,
                          Fflush_stdout])"
    and "sys_open E (name (f0 s)) = Inl e0 \<Longrightarrow> sys_open E (name (f1 s)) = Inr fd \<Longrightarrow>
           compare_files E C par n0 n1 =
             ((if sys_fflush_stdout E = None then Inr EXIT_TROUBLE
               else Inl (Fatal ''standard output'')),
              events s @ [Open_file (name (f0 s)), Perror_with_name (name (f0 s)) e0,
                          Open_file (name (f1 s)), Close_file (int fd)]
              @ (case sys_close E (int fd) of None \<Rightarrow> []
                 | Some e \<Rightarrow> [Perror_with_name (name (f1 s)) e])
              @ [Fflush_stdout])"
    and "sys_open E (name (f0 s)) = Inr fd \<Longrightarrow> sys_open E (name (f1 s)) = Inl e1 \<Longrightarrow>
           compare_files E C par n0 n1 =
             ((if sys_fflush_stdout E = None then Inr EXIT_TROUBLE
               else Inl (Fatal ''standard output'')),
              events s @ [Open_file (name (f0 s)),
                          Open_file (name (f1 s)), Perror_with_name (name (f1 s)) e1,
                          Close_file (int fd)]
              @ (case sys_close E (int fd) of None \<Rightarrow> []
                 | Some e \<Rightarrow> [Perror_with_name (name (f0 s)) e])
              @ [Fflush_stdout])"
proof -
  let ?s1 = "open1 E (same_files s) (open0 E s)"
  show "sys_open E (name (f0 s)) = Inl e0 \<Longrightarrow> sys_open E (name (f1 s)) = Inl e1 \<Longrightarrow>
           compare_files E C par n0 n1 =
             ((if sys_fflush_stdout E = None then Inr EXIT_TROUBLE
               else Inl (Fatal ''standard output'')),
              events s @ [Open_file (name (f0 s)), Perror_with_name (name (f0 s)) e0,
                          Open_file (name (f1 s)), Perror_with_name (name (f1 s)) e1,
                          Fflush_stdout])"
  proof -
    assume o: "sys_open E (name (f0 s)) = Inl e0" "sys_open E (name (f1 s)) = Inl e1"
    have ne: "status ?s1 \<noteq> EXIT_SUCCESS"
      using assms(3-5) o by (simp add: open0_def open1_def status_defs)
    have ev: "events (close1 E (close0 E ?s1)) =
        events s @ [Open_file (name (f0 s)), Perror_with_name (name (f0 s)) e0,
                    Open_file (name (f1 s)), Perror_with_name (name (f1 s)) e1]"
      using assms(3-5) o by (simp add: open0_def open1_def close0_def close1_def)
    show ?thesis using open_fail_run [OF assms(1,2) ne] by (simp add: ev)
  qed
  show "sys_open E (name (f0 s)) = Inl e0 \<Longrightarrow> sys_open E (name (f1 s)) = Inr fd \<Longrightarrow>
           compare_files E C par n0 n1 =
             ((if sys_fflush_stdout E = None then Inr EXIT_TROUBLE
               else Inl (Fatal ''standard output'')),
              events s @ [Open_file (name (f0 s)), Perror_with_name (name (f0 s)) e0,
                          Open_file (name (f1 s)), Close_file (int fd)]
              @ (case sys_close E (int fd) of None \<Rightarrow> []
                 | Some e \<Rightarrow> [Perror_with_name (name (f1 s)) e])
              @ [Fflush_stdout])"
  proof -
    assume o: "sys_open E (name (f0 s)) = Inl e0" "sys_open E (name (f1 s)) = Inr fd"
    have ne: "status ?s1 \<noteq> EXIT_SUCCESS"
      using assms(3-5) o by (simp add: open0_def open1_def status_defs)
    have ev: "events (close1 E (close0 E ?s1)) =
        events s @ [Open_file (name (f0 s)), Perror_with_name (name (f0 s)) e0,
                    Open_file (name (f1 s)), Close_file (int fd)]
        @ (case sys_close E (int fd) of None \<Rightarrow> []
           | Some e \<Rightarrow> [Perror_with_name (name (f1 s)) e])"
      using assms(3-5) o
      by (simp add: open0_def open1_def close0_def close1_def split: option.splits)
    show ?thesis using open_fail_run [OF assms(1,2) ne] by (simp add: ev)
  qed
  show "sys_open E (name (f0 s)) = Inr fd \<Longrightarrow> sys_open E (name (f1 s)) = Inl e1 \<Longrightarrow>
           compare_files E C par n0 n1 =
             ((if sys_fflush_stdout E = None then Inr EXIT_TROUBLE
               else Inl (Fatal ''standard output'')),
              events s @ [Open_file (name (f0 s)),
                          Open_file (name (f1 s)), Perror_with_name (name (f1 s)) e1,
                          Close_file (int fd)]
              @ (case sys_close E (int fd) of None \<Rightarrow> []
                 | Some e \<Rightarrow> [Perror_with_name (name (f0 s)) e])
              @ [Fflush_stdout])"
  proof -
    assume o: "sys_open E (name (f0 s)) = Inr fd" "sys_open E (name (f1 s)) = Inl e1"
    have ne: "status ?s1 \<noteq> EXIT_SUCCESS"
      using assms(3-5) o by (simp add: open0_def open1_def status_defs)
    have ev: "events (close1 E (close0 E ?s1)) =
        events s @ [Open_file (name (f0 s)),
                    Open_file (name (f1 s)), Perror_with_name (name (f1 s)) e1,
                    Close_file (int fd)]
        @ (case sys_close E (int fd) of None \<Rightarrow> []
           | Some e \<Rightarrow> [Perror_with_name (name (f0 s)) e])"
      using assms(3-5) o
      by (simp add: open0_def open1_def close0_def close1_def split: option.splits)
    show ?thesis using open_fail_run [OF assms(1,2) ne] by (simp add: ev)
  qed
qed


text \<open>
  C6, as amended. A failure to resolve a slot ends the call with \<open>EXIT_TROUBLE\<close>
  after the flush of line 1373 (a failing flush ends the process, with the same
  status), and neither \<open>diff_dirs\<close> nor \<open>diff_2_files\<close> is called.

  \<^item> When, after the loops of lines 1115-1170, the descriptor of at least one slot
    holds an error (a failure that was not turned into \<open>NONEXISTENT\<close>), the trace of
    the call is: the system calls of the resolution, one \<open>perror_with_name\<close> for each
    slot that holds an error (line 1176), hence two when both do, and the flush. The
    chain of tests reports nothing and nothing is opened.

  \<^item> When both operands of a top-level pair were found, exactly one is a directory
    and the file that stands for it cannot be stat'ed (lines 1195-1201), the trace is:
    the system calls of the resolution, that \<open>stat\<close>, one \<open>perror_with_name\<close>, and the
    flush.

  \<^item> When an \<open>open\<close> fails in the arm of lines 1323-1360, one \<open>perror_with_name\<close>
    follows it at once and nothing is compared. For two files that are both to be
    opened the whole trace is given: the second \<open>open\<close> is attempted also after the
    first has failed, and a file that was opened is closed (a failing \<open>close\<close> is
    reported as well).
\<close>

theorem failed_resolution_is_trouble:
  "(compare_files_begin E C par n0 n1 = Inr s0
      \<and> (failed (f0 (stat_and_mark E C par s0)) \<or> failed (f1 (stat_and_mark E C par s0))) \<longrightarrow>
        compare_files E C par n0 n1 =
          ((if sys_fflush_stdout E = None then Inr EXIT_TROUBLE
            else Inl (Fatal ''standard output'')),
           events (stat_and_mark E C par s0)
           @ error_report (f0 (stat_and_mark E C par s0))
           @ error_report (f1 (stat_and_mark E C par s0))
           @ [Fflush_stdout])
        \<and> list_all resolution_event (events (stat_and_mark E C par s0))
        \<and> length (error_report (f0 (stat_and_mark E C par s0))
                  @ error_report (f1 (stat_and_mark E C par s0))) =
            (if failed (f0 (stat_and_mark E C par s0)) then 1 else 0)
            + (if failed (f1 (stat_and_mark E C par s0)) then 1 else 0)
        \<and> process_status (fst (compare_files E C par n0 n1)) = EXIT_TROUBLE)
   \<and> (present (f0 (top_level E C a b)) \<and> present (f1 (top_level E C a b))
      \<and> DIR_P (top_level E C a b) 0 \<noteq> DIR_P (top_level E C a b) 1
      \<and> (if DIR_P (top_level E C a b) 0 then b else a) \<noteq> ''-''
      \<and> (if no_dereference_symlinks C then sys_lstat E else sys_stat E)
           (find_dir_file_pathname E (if DIR_P (top_level E C a b) 0 then a else b)
              (last_component E (if DIR_P (top_level E C a b) 0 then b else a))) = Inl e \<longrightarrow>
        compare_files E C None (Some a) (Some b) =
          ((if sys_fflush_stdout E = None then Inr EXIT_TROUBLE
            else Inl (Fatal ''standard output'')),
           events (top_level E C a b)
           @ [(if no_dereference_symlinks C then Lstat else Stat)
                (find_dir_file_pathname E (if DIR_P (top_level E C a b) 0 then a else b)
                   (last_component E (if DIR_P (top_level E C a b) 0 then b else a))),
              Perror_with_name
                (find_dir_file_pathname E (if DIR_P (top_level E C a b) 0 then a else b)
                   (last_component E (if DIR_P (top_level E C a b) 0 then b else a))) e,
              Fflush_stdout])
        \<and> list_all resolution_event (events (top_level E C a b)))
   \<and> (prepare E C par n0 n1 = Inr s \<and> classify C par s = Compare_contents
      \<and> desc (f0 s) = UNOPENED \<and> sys_open E (name (f0 s)) = Inl e0 \<longrightarrow>
        (\<exists>es. compare_files E C par n0 n1 =
           ((if sys_fflush_stdout E = None then Inr EXIT_TROUBLE
             else Inl (Fatal ''standard output'')),
            events s @ [Open_file (name (f0 s)), Perror_with_name (name (f0 s)) e0]
            @ es @ [Fflush_stdout])
         \<and> list_all (\<lambda>e. \<not> comparison_event e) es)
        \<and> list_all resolution_event (events s))
   \<and> (prepare E C par n0 n1 = Inr s \<and> classify C par s = Compare_contents
      \<and> desc (f1 s) = UNOPENED \<and> \<not> same_files s \<and> sys_open E (name (f1 s)) = Inl e1 \<longrightarrow>
        (\<exists>es es'. compare_files E C par n0 n1 =
           ((if sys_fflush_stdout E = None then Inr EXIT_TROUBLE
             else Inl (Fatal ''standard output'')),
            events s @ es @ [Open_file (name (f1 s)), Perror_with_name (name (f1 s)) e1]
            @ es' @ [Fflush_stdout])
         \<and> list_all (\<lambda>e. \<not> comparison_event e) es
         \<and> list_all (\<lambda>e. \<not> comparison_event e) es')
        \<and> list_all resolution_event (events s))
   \<and> (prepare E C par n0 n1 = Inr s \<and> classify C par s = Compare_contents
      \<and> desc (f0 s) = UNOPENED \<and> desc (f1 s) = UNOPENED \<and> \<not> same_files s \<longrightarrow>
        (sys_open E (name (f0 s)) = Inl e0 \<and> sys_open E (name (f1 s)) = Inl e1 \<longrightarrow>
           compare_files E C par n0 n1 =
             ((if sys_fflush_stdout E = None then Inr EXIT_TROUBLE
               else Inl (Fatal ''standard output'')),
              events s @ [Open_file (name (f0 s)), Perror_with_name (name (f0 s)) e0,
                          Open_file (name (f1 s)), Perror_with_name (name (f1 s)) e1,
                          Fflush_stdout]))
        \<and> (sys_open E (name (f0 s)) = Inl e0 \<and> sys_open E (name (f1 s)) = Inr fd \<longrightarrow>
           compare_files E C par n0 n1 =
             ((if sys_fflush_stdout E = None then Inr EXIT_TROUBLE
               else Inl (Fatal ''standard output'')),
              events s @ [Open_file (name (f0 s)), Perror_with_name (name (f0 s)) e0,
                          Open_file (name (f1 s)), Close_file (int fd)]
              @ (case sys_close E (int fd) of None \<Rightarrow> []
                 | Some e \<Rightarrow> [Perror_with_name (name (f1 s)) e])
              @ [Fflush_stdout]))
        \<and> (sys_open E (name (f0 s)) = Inr fd \<and> sys_open E (name (f1 s)) = Inl e1 \<longrightarrow>
           compare_files E C par n0 n1 =
             ((if sys_fflush_stdout E = None then Inr EXIT_TROUBLE
               else Inl (Fatal ''standard output'')),
              events s @ [Open_file (name (f0 s)),
                          Open_file (name (f1 s)), Perror_with_name (name (f1 s)) e1,
                          Close_file (int fd)]
              @ (case sys_close E (int fd) of None \<Rightarrow> []
                 | Some e \<Rightarrow> [Perror_with_name (name (f0 s)) e])
              @ [Fflush_stdout])))"
  (is "(?A1 \<longrightarrow> ?B1) \<and> (?A2 \<longrightarrow> ?B2) \<and> (?A3 \<longrightarrow> ?B3) \<and> (?A4 \<longrightarrow> ?B4) \<and> (?A5 \<longrightarrow> ?B5)")
proof -
  have one: ?B1 if h: ?A1
  proof -
    from h have b: "compare_files_begin E C par n0 n1 = Inr s0"
      and f: "failed (f0 (stat_and_mark E C par s0)) \<or> failed (f1 (stat_and_mark E C par s0))"
      by blast+
    have ev: "list_all resolution_event (events (stat_and_mark E C par s0))"
      using stat_and_mark_events [of E C par s0] begin_state [OF b] by auto
    show ?thesis
      using ev by (simp add: trouble_trace [OF b f] process_status_def error_report_def)
  qed
  have two: ?B2 if h: ?A2
  proof -
    from h have st: "status (top_level E C a b) = EXIT_SUCCESS"
      by (simp add: top_level_status present_def)
    from h have r: "DIR_P (top_level E C a b) 0 \<noteq> DIR_P (top_level E C a b) 1"
      "(if DIR_P (top_level E C a b) 0 then b else a) \<noteq> ''-''"
      "(if no_dereference_symlinks C then sys_lstat E else sys_stat E)
           (find_dir_file_pathname E (if DIR_P (top_level E C a b) 0 then a else b)
              (last_component E (if DIR_P (top_level E C a b) 0 then b else a))) = Inl e"
      by blast+
    show ?thesis
      using replacement_fails [OF st r] top_level_events [OF st] by blast
  qed
  have ok: "list_all resolution_event (events s)"
    if "prepare E C par n0 n1 = Inr s" "classify C par s = Compare_contents"
  proof -
    have "status s = EXIT_SUCCESS" using that(2) by (simp add: classify_def split: if_splits)
    then show ?thesis using prepare_inv(7) [OF that(1)] by simp
  qed
  have three: ?B3 if h: ?A3
    using first_open_fails [of E C par n0 n1 s e0] ok h by blast
  have four: ?B4 if h: ?A4
    using second_open_fails [of E C par n0 n1 s e1] ok h by blast
  have five: ?B5 if h: ?A5
  proof -
    from h have g: "prepare E C par n0 n1 = Inr s" "classify C par s = Compare_contents"
      "desc (f0 s) = UNOPENED" "desc (f1 s) = UNOPENED" "\<not> same_files s"
      by blast+
    note t = two_files_open_fails [OF g]
    show ?thesis using t(1) [of e0 e1] t(2) [of e0 fd] t(3) [of fd e1] by blast
  qed
  show ?thesis using one two three four five by blast
qed


theorem failed_resolution_is_trouble_witness:
  "failed (f0 (stat_and_mark ex_env (main_flags ex_options) None
       \<lparr>f0 = \<lparr>desc = UNOPENED, name = ''x'', stat = zero_stat\<rparr>,
        f1 = \<lparr>desc = UNOPENED, name = ''b'', stat = zero_stat\<rparr>,
        name0 = ''x'', status = EXIT_SUCCESS, events = []\<rparr>))
   \<and> compare_files ex_env (main_flags ex_options) None (Some ''x'') (Some ''b'') =
       (Inr EXIT_TROUBLE, [Stat ''x'', Stat ''b'', Perror_with_name ''x'' ENOENT, Fflush_stdout])
   \<and> present (f0 (top_level ex_env (main_flags ex_options) ''d'' ''b''))
   \<and> present (f1 (top_level ex_env (main_flags ex_options) ''d'' ''b''))
   \<and> DIR_P (top_level ex_env (main_flags ex_options) ''d'' ''b'') 0
   \<and> \<not> DIR_P (top_level ex_env (main_flags ex_options) ''d'' ''b'') 1
   \<and> sys_stat ex_env ''d/b'' = Inl ENOENT
   \<and> compare_files ex_env (main_flags ex_options) None (Some ''d'') (Some ''b'') =
       (Inr EXIT_TROUBLE,
        [Stat ''d'', Stat ''b'', Stat ''d/b'', Perror_with_name ''d/b'' ENOENT, Fflush_stdout])
   \<and> prepare (ex_env\<lparr>sys_open := (\<lambda>n. if n = ''a'' then Inl 13 else Inr 3)\<rparr>)
        (main_flags ex_options) None (Some ''a'') (Some ''b'') =
       Inr \<lparr>f0 = \<lparr>desc = UNOPENED, name = ''a'', stat = ex_reg 10 3\<rparr>,
            f1 = \<lparr>desc = UNOPENED, name = ''b'', stat = ex_reg 11 5\<rparr>,
            name0 = ''a'', status = EXIT_SUCCESS, events = [Stat ''a'', Stat ''b'']\<rparr>
   \<and> compare_files (ex_env\<lparr>sys_open := (\<lambda>n. if n = ''a'' then Inl 13 else Inr 3)\<rparr>)
        (main_flags ex_options) None (Some ''a'') (Some ''b'') =
       (Inr EXIT_TROUBLE,
        [Stat ''a'', Stat ''b'', Open_file ''a'', Perror_with_name ''a'' 13, Open_file ''b'',
         Close_file 3, Fflush_stdout])"
proof -
  let ?C = "main_flags ex_options"
  let ?s0 = "\<lparr>f0 = \<lparr>desc = UNOPENED, name = ''x'', stat = zero_stat\<rparr>,
        f1 = \<lparr>desc = UNOPENED, name = ''b'', stat = zero_stat\<rparr>,
        name0 = ''x'', status = EXIT_SUCCESS, events = []\<rparr>"
  let ?t = "stat_and_mark ex_env ?C None ?s0"
  have b: "compare_files_begin ex_env ?C None (Some ''x'') (Some ''b'') = Inr ?s0"
    by code_simp
  have f: "failed (f0 ?t)" by code_simp
  have e: "events ?t @ error_report (f0 ?t) @ error_report (f1 ?t) @ [Fflush_stdout]
      = [Stat ''x'', Stat ''b'', Perror_with_name ''x'' ENOENT, Fflush_stdout]"
    by code_simp
  have fl: "sys_fflush_stdout ex_env = None" by code_simp
  note t1 = failed_resolution_is_trouble
    [where E = ex_env and C = ?C and par = None and ?n0.0 = "Some ''x''"
       and ?n1.0 = "Some ''b''" and ?s0.0 = ?s0]
  from t1 b f e fl
  have one: "compare_files ex_env ?C None (Some ''x'') (Some ''b'') =
       (Inr EXIT_TROUBLE, [Stat ''x'', Stat ''b'', Perror_with_name ''x'' ENOENT, Fflush_stdout])"
    by simp
  let ?r = "top_level ex_env ?C ''d'' ''b''"
  have h: "present (f0 ?r)" "present (f1 ?r)" "DIR_P ?r 0" "\<not> DIR_P ?r 1"
    by code_simp+
  have n: "find_dir_file_pathname ex_env ''d'' (last_component ex_env ''b'') = ''d/b''"
    "\<not> no_dereference_symlinks ?C" "sys_stat ex_env ''d/b'' = Inl ENOENT"
    "events ?r = [Stat ''d'', Stat ''b'']"
    by code_simp+
  have nm: "''b'' \<noteq> ''-''" by simp
  note t2 = failed_resolution_is_trouble
    [where E = ex_env and C = ?C and a = "''d''" and b = "''b''" and e = ENOENT]
  from t2 h n nm fl
  have two: "compare_files ex_env ?C None (Some ''d'') (Some ''b'') =
       (Inr EXIT_TROUBLE,
        [Stat ''d'', Stat ''b'', Stat ''d/b'', Perror_with_name ''d/b'' ENOENT, Fflush_stdout])"
    by simp
  let ?E = "ex_env\<lparr>sys_open := (\<lambda>n. if n = ''a'' then Inl 13 else Inr 3)\<rparr>"
  let ?s = "\<lparr>f0 = \<lparr>desc = UNOPENED, name = ''a'', stat = ex_reg 10 3\<rparr>,
            f1 = \<lparr>desc = UNOPENED, name = ''b'', stat = ex_reg 11 5\<rparr>,
            name0 = ''a'', status = EXIT_SUCCESS, events = [Stat ''a'', Stat ''b'']\<rparr>"
  have p: "prepare ?E ?C None (Some ''a'') (Some ''b'') = Inr ?s" by code_simp
  have c: "classify ?C None ?s = Compare_contents" "\<not> same_files ?s" by code_simp+
  have o: "sys_open ?E ''a'' = Inl 13" "sys_open ?E ''b'' = Inr 3" "sys_close ?E 3 = None"
    "sys_fflush_stdout ?E = None"
    by code_simp+
  note t3 = failed_resolution_is_trouble
    [where E = ?E and C = ?C and par = None and ?n0.0 = "Some ''a''"
       and ?n1.0 = "Some ''b''" and s = ?s and ?e0.0 = 13 and fd = 3]
  from t3 p c o
  have three: "compare_files ?E ?C None (Some ''a'') (Some ''b'') =
       (Inr EXIT_TROUBLE,
        [Stat ''a'', Stat ''b'', Open_file ''a'', Perror_with_name ''a'' 13, Open_file ''b'',
         Close_file 3, Fflush_stdout])"
    by simp
  show ?thesis using f one h n(3) two p three by simp
qed

text \<open>
  The claim as stated has a failure reported once. For \<open>diff - -\<close> with a standard
  input that cannot be stat'ed, the one failing \<open>fstat\<close> is reported twice, once for
  each slot.
\<close>

theorem failed_resolution_counterexample:
  "compare_files (ex_env\<lparr>sys_fstat_stdin := Inl EBADF\<rparr>) (main_flags ex_options) None
      (Some ''-'') (Some ''-'') =
     (Inr EXIT_TROUBLE,
      [Set_binary_mode_stdin, Fstat_stdin, Perror_with_name ''-'' EBADF,
       Perror_with_name ''-'' EBADF, Fflush_stdout])
   \<and> length (filter (\<lambda>e. e = Fstat_stdin)
        (snd (compare_files (ex_env\<lparr>sys_fstat_stdin := Inl EBADF\<rparr>) (main_flags ex_options)
                None (Some ''-'') (Some ''-'')))) = 1
   \<and> length (filter (\<lambda>e. e = Perror_with_name ''-'' EBADF)
        (snd (compare_files (ex_env\<lparr>sys_fstat_stdin := Inl EBADF\<rparr>) (main_flags ex_options)
                None (Some ''-'') (Some ''-'')))) = 2"
  by code_simp

subsection \<open>The binary fast path\<close>

lemma main_flags_binary:
  "files_can_be_treated_as_binary (main_flags C) =
     (brief C \<and> binary C \<and> \<not> ignore_blank_lines C \<and> \<not> ignore_case C
      \<and> \<not> strip_trailing_cr C \<and> ignore_regexps C = None \<and> ignore_white_space C = 0)"
  by (simp add: main_flags_def Let_def of_bool_def)

text \<open>
  C3. For a pair that reaches the chain of tests, the arm of lines 1313-1322 is taken
  exactly when the derived flag \<open>files_can_be_treated_as_binary\<close> holds (brief mode,
  binary I/O, and none of blank-line skipping, case folding, carriage-return stripping,
  line-ignoring patterns and white-space folding), both sides are regular files (each
  slot stands for a file that was found, and its mode is regular), their sizes differ
  and neither is zero. The arm emits \<open>Files A and B differ\<close> and sets the status to
  \<open>EXIT_FAILURE\<close>, with no \<open>open\<close> and no call of \<open>diff_2_files\<close> (the trace
  holds the system calls of the resolution, the message and the flush); the status is
  returned after the flush of line 1373 (whose failure is fatal). In particular the arm
  is never taken when the two sizes are equal.
\<close>

theorem binary_fast_path:
  assumes "prepare E (main_flags C) par n0 n1 = Inr s"
  shows
    "(classify (main_flags C) par s = Binary_differ) =
       ((brief C \<and> binary C \<and> \<not> ignore_blank_lines C \<and> \<not> ignore_case C
         \<and> \<not> strip_trailing_cr C \<and> ignore_regexps C = None \<and> ignore_white_space C = 0)
        \<and> present (f0 s) \<and> S_ISREG (st_mode (stat (f0 s)))
        \<and> present (f1 s) \<and> S_ISREG (st_mode (stat (f1 s)))
        \<and> st_size (stat (f0 s)) \<noteq> st_size (stat (f1 s))
        \<and> st_size (stat (f0 s)) \<noteq> 0 \<and> st_size (stat (f1 s)) \<noteq> 0)
     \<and> (classify (main_flags C) par s = Binary_differ \<longrightarrow>
          compare_files E (main_flags C) par n0 n1 =
            ((if sys_fflush_stdout E = None then Inr EXIT_FAILURE
              else Inl (Fatal ''standard output'')),
             events s @ [Message (''Files '' @ label0 (main_flags C) s @ '' and ''
                                  @ label1 (main_flags C) s @ '' differ'' @ NL),
                         Fflush_stdout])
          \<and> list_all resolution_event (events s))
     \<and> (st_size (stat (f0 s)) = st_size (stat (f1 s)) \<longrightarrow>
          classify (main_flags C) par s \<noteq> Binary_differ)"
proof -
  let ?C = "main_flags C"
  note inv = prepare_inv [OF assms]
  have fwd: "classify ?C par s = Binary_differ \<Longrightarrow>
      files_can_be_treated_as_binary ?C \<and> status s = EXIT_SUCCESS
      \<and> S_ISREG (st_mode (stat (f0 s))) \<and> S_ISREG (st_mode (stat (f1 s)))
      \<and> st_size (stat (f0 s)) \<noteq> st_size (stat (f1 s))
      \<and> 0 < st_size (stat (f0 s)) \<and> 0 < st_size (stat (f1 s))"
    by (simp add: classify_def split: if_splits)
  have pres: "classify ?C par s = Binary_differ \<Longrightarrow> present (f0 s) \<and> present (f1 s)"
    using fwd inv(2) inv(4) inv(5) by (auto simp add: present_def)
  have bwd: "files_can_be_treated_as_binary ?C \<Longrightarrow> present (f0 s) \<Longrightarrow> present (f1 s)
      \<Longrightarrow> S_ISREG (st_mode (stat (f0 s))) \<Longrightarrow> S_ISREG (st_mode (stat (f1 s)))
      \<Longrightarrow> st_size (stat (f0 s)) \<noteq> st_size (stat (f1 s))
      \<Longrightarrow> st_size (stat (f0 s)) \<noteq> 0 \<Longrightarrow> st_size (stat (f1 s)) \<noteq> 0
      \<Longrightarrow> classify ?C par s = Binary_differ"
  proof -
    assume g: "files_can_be_treated_as_binary ?C"
      and p: "present (f0 s)" "present (f1 s)"
      and r: "S_ISREG (st_mode (stat (f0 s)))" "S_ISREG (st_mode (stat (f1 s)))"
      and z: "st_size (stat (f0 s)) \<noteq> st_size (stat (f1 s))"
         "st_size (stat (f0 s)) \<noteq> 0" "st_size (stat (f1 s)) \<noteq> 0"
    have nd: "\<not> DIR_P s 0" "\<not> DIR_P s 1"
      using r mode_exclusive(1) by (auto simp add: DIR_P_simps)
    have st: "status s = EXIT_SUCCESS"
      using inv(3) p nd by (auto simp add: present_def)
    have nl: "\<not> S_ISLNK (st_mode (stat (f0 s)))" "\<not> S_ISLNK (st_mode (stat (f1 s)))"
      using r mode_exclusive(2) by auto
    have sf: "\<not> same_files s"
      using z by (simp add: same_files_def same_file_attributes_def)
    show ?thesis
      using g p r z nd st nl sf
      by (simp add: classify_def present_def regular_or_link_def)
  qed
  have run: "classify ?C par s = Binary_differ \<Longrightarrow>
      compare_files E ?C par n0 n1 =
        ((if sys_fflush_stdout E = None then Inr EXIT_FAILURE
          else Inl (Fatal ''standard output'')),
         events s @ [Message (''Files '' @ label0 ?C s @ '' and '' @ label1 ?C s
                              @ '' differ'' @ NL), Fflush_stdout])
      \<and> list_all resolution_event (events s)"
    using fwd inv(7)
    by (simp add: compare_files_def assms act_def binary_differ_def finish_differ
        label0_def label1_def)
  have gate: "files_can_be_treated_as_binary ?C =
      (brief C \<and> binary C \<and> \<not> ignore_blank_lines C \<and> \<not> ignore_case C
       \<and> \<not> strip_trailing_cr C \<and> ignore_regexps C = None \<and> ignore_white_space C = 0)"
    by (rule main_flags_binary)
  have iff: "(classify ?C par s = Binary_differ) =
       (files_can_be_treated_as_binary ?C
        \<and> present (f0 s) \<and> S_ISREG (st_mode (stat (f0 s)))
        \<and> present (f1 s) \<and> S_ISREG (st_mode (stat (f1 s)))
        \<and> st_size (stat (f0 s)) \<noteq> st_size (stat (f1 s))
        \<and> st_size (stat (f0 s)) \<noteq> 0 \<and> st_size (stat (f1 s)) \<noteq> 0)"
  proof
    assume b: "classify ?C par s = Binary_differ"
    from fwd [OF b] pres [OF b] show "files_can_be_treated_as_binary ?C
        \<and> present (f0 s) \<and> S_ISREG (st_mode (stat (f0 s)))
        \<and> present (f1 s) \<and> S_ISREG (st_mode (stat (f1 s)))
        \<and> st_size (stat (f0 s)) \<noteq> st_size (stat (f1 s))
        \<and> st_size (stat (f0 s)) \<noteq> 0 \<and> st_size (stat (f1 s)) \<noteq> 0"
      by simp
  next
    assume "files_can_be_treated_as_binary ?C
        \<and> present (f0 s) \<and> S_ISREG (st_mode (stat (f0 s)))
        \<and> present (f1 s) \<and> S_ISREG (st_mode (stat (f1 s)))
        \<and> st_size (stat (f0 s)) \<noteq> st_size (stat (f1 s))
        \<and> st_size (stat (f0 s)) \<noteq> 0 \<and> st_size (stat (f1 s)) \<noteq> 0"
    then show "classify ?C par s = Binary_differ" using bwd by blast
  qed
  have eq: "st_size (stat (f0 s)) = st_size (stat (f1 s)) \<longrightarrow>
      classify ?C par s \<noteq> Binary_differ"
    using fwd by blast
  show ?thesis
    unfolding gate [symmetric] using iff run eq by blast
qed

theorem binary_fast_path_witness:
  "prepare ex_env (main_flags (ex_options\<lparr>brief := True\<rparr>)) None (Some ''a'') (Some ''b'') =
     Inr \<lparr>f0 = \<lparr>desc = UNOPENED, name = ''a'', stat = ex_reg 10 3\<rparr>,
          f1 = \<lparr>desc = UNOPENED, name = ''b'', stat = ex_reg 11 5\<rparr>,
          name0 = ''a'', status = EXIT_SUCCESS, events = [Stat ''a'', Stat ''b'']\<rparr>
   \<and> classify (main_flags (ex_options\<lparr>brief := True\<rparr>)) None
        \<lparr>f0 = \<lparr>desc = UNOPENED, name = ''a'', stat = ex_reg 10 3\<rparr>,
         f1 = \<lparr>desc = UNOPENED, name = ''b'', stat = ex_reg 11 5\<rparr>,
         name0 = ''a'', status = EXIT_SUCCESS, events = [Stat ''a'', Stat ''b'']\<rparr> = Binary_differ
   \<and> compare_files ex_env (main_flags (ex_options\<lparr>brief := True\<rparr>)) None (Some ''a'') (Some ''b'') =
       (Inr EXIT_FAILURE,
        [Stat ''a'', Stat ''b'', Message (''Files a and b differ'' @ NL), Fflush_stdout])
   \<and> prepare ex_env (main_flags (ex_options\<lparr>brief := True\<rparr>)) None (Some ''a'') (Some ''d/a'') =
     Inr \<lparr>f0 = \<lparr>desc = UNOPENED, name = ''a'', stat = ex_reg 10 3\<rparr>,
          f1 = \<lparr>desc = UNOPENED, name = ''d/a'', stat = ex_reg 12 3\<rparr>,
          name0 = ''a'', status = EXIT_SUCCESS, events = [Stat ''a'', Stat ''d/a'']\<rparr>
   \<and> classify (main_flags (ex_options\<lparr>brief := True\<rparr>)) None
        \<lparr>f0 = \<lparr>desc = UNOPENED, name = ''a'', stat = ex_reg 10 3\<rparr>,
         f1 = \<lparr>desc = UNOPENED, name = ''d/a'', stat = ex_reg 12 3\<rparr>,
         name0 = ''a'', status = EXIT_SUCCESS, events = [Stat ''a'', Stat ''d/a'']\<rparr> \<noteq> Binary_differ"
proof -
  let ?O = "ex_options\<lparr>brief := True\<rparr>"
  let ?s = "\<lparr>f0 = \<lparr>desc = UNOPENED, name = ''a'', stat = ex_reg 10 3\<rparr>,
          f1 = \<lparr>desc = UNOPENED, name = ''b'', stat = ex_reg 11 5\<rparr>,
          name0 = ''a'', status = EXIT_SUCCESS, events = [Stat ''a'', Stat ''b'']\<rparr>"
  let ?u = "\<lparr>f0 = \<lparr>desc = UNOPENED, name = ''a'', stat = ex_reg 10 3\<rparr>,
          f1 = \<lparr>desc = UNOPENED, name = ''d/a'', stat = ex_reg 12 3\<rparr>,
          name0 = ''a'', status = EXIT_SUCCESS, events = [Stat ''a'', Stat ''d/a'']\<rparr>"
  have p: "prepare ex_env (main_flags ?O) None (Some ''a'') (Some ''b'') = Inr ?s"
    by code_simp
  have q: "prepare ex_env (main_flags ?O) None (Some ''a'') (Some ''d/a'') = Inr ?u"
    by code_simp
  have c: "(brief ?O \<and> binary ?O \<and> \<not> ignore_blank_lines ?O \<and> \<not> ignore_case ?O
         \<and> \<not> strip_trailing_cr ?O \<and> ignore_regexps ?O = None \<and> ignore_white_space ?O = 0)
        \<and> present (f0 ?s) \<and> S_ISREG (st_mode (stat (f0 ?s)))
        \<and> present (f1 ?s) \<and> S_ISREG (st_mode (stat (f1 ?s)))
        \<and> st_size (stat (f0 ?s)) \<noteq> st_size (stat (f1 ?s))
        \<and> st_size (stat (f0 ?s)) \<noteq> 0 \<and> st_size (stat (f1 ?s)) \<noteq> 0"
    by code_simp
  have l: "label0 (main_flags ?O) ?s = ''a''" "label1 (main_flags ?O) ?s = ''b''"
    "sys_fflush_stdout ex_env = None" "events ?s = [Stat ''a'', Stat ''b'']"
    by code_simp+
  have e: "st_size (stat (f0 ?u)) = st_size (stat (f1 ?u))" by code_simp
  note t1 = binary_fast_path [OF p]
  note t2 = binary_fast_path [OF q]
  have fires: "classify (main_flags ?O) None ?s = Binary_differ"
    using t1 c by blast
  have out: "compare_files ex_env (main_flags ?O) None (Some ''a'') (Some ''b'') =
       (Inr EXIT_FAILURE,
        [Stat ''a'', Stat ''b'', Message (''Files a and b differ'' @ NL), Fflush_stdout])"
    using t1 fires l by simp
  have not: "classify (main_flags ?O) None ?u \<noteq> Binary_differ"
    using t2 e by blast
  show ?thesis using p q fires out not by simp
qed

subsection \<open>Two names of one file\<close>

lemma main_flags_no_diff:
  "no_diff_means_no_output (main_flags C) =
     (if output_style C = OUTPUT_IFDEF
      then (case group_format_UNCHANGED C of None \<Rightarrow> ''%='' | Some g \<Rightarrow> g) = []
           \<or> ((case group_format_UNCHANGED C of None \<Rightarrow> ''%='' | Some g \<Rightarrow> g) = ''%=''
               \<and> (case line_format_UNCHANGED C of None \<Rightarrow> ''%l'' @ NL | Some l \<Rightarrow> l) = [])
      else output_style C \<noteq> OUTPUT_SDIFF \<or> suppress_common_lines C)"
  by (simp add: main_flags_def Let_def of_bool_def)

lemma main_flags_other [simp]:
  "report_identical_files (main_flags C) = report_identical_files C"
  "recursive (main_flags C) = recursive C"
  "new_file (main_flags C) = new_file C"
  "unidirectional_new_file (main_flags C) = unidirectional_new_file C"
  "no_dereference_symlinks (main_flags C) = no_dereference_symlinks C"
  "output_style (main_flags C) = output_style C"
  "file_label0 (main_flags C) = file_label0 C"
  "file_label1 (main_flags C) = file_label1 C"
  "binary (main_flags C) = binary C"
  by (simp_all add: main_flags_def Let_def)

lemma finish_success:
  "status s = EXIT_SUCCESS \<Longrightarrow>
     finish E C s =
       (Inr EXIT_SUCCESS,
        events s @ (if report_identical_files C \<and> \<not> DIR_P s 0
                    then [Message (''Files '' @ label0 C s @ '' and '' @ label1 C s
                                   @ '' are identical'' @ NL)]
                    else []))"
  by (simp add: finish_def)

text \<open>
  C2, as amended. For a pair whose two slots resolved without error, the arm of lines
  1209-1217 is taken exactly when both sides are present, their device and inode
  numbers match (\<open>same_file\<close>), their attributes are equal
  (\<open>same_file_attributes\<close>: mode, size, owner) and the derived flag
  \<open>no_diff_means_no_output\<close> holds, whatever the type of the file: the source does not
  ask for regular files. The call then returns \<open>EXIT_SUCCESS\<close> and its trace holds
  the system calls of the resolution and nothing else, but for the report of line 1367
  when \<open>report_identical_files\<close> is set and the first side is no directory. The arm is
  never taken when the output style prints something for identical files, that is when
  the flag derived in lines 740-745 is false.
\<close>

theorem same_physical_file_short_circuit:
  assumes "prepare E (main_flags C) par n0 n1 = Inr s"
    and "status s = EXIT_SUCCESS"
  shows
    "(classify (main_flags C) par s = Same_physical_file) =
       (present (f0 s) \<and> present (f1 s)
        \<and> 0 < same_file (stat (f0 s)) (stat (f1 s))
        \<and> same_file_attributes (stat (f0 s)) (stat (f1 s))
        \<and> no_diff_means_no_output (main_flags C))
     \<and> (classify (main_flags C) par s = Same_physical_file \<longrightarrow>
          compare_files E (main_flags C) par n0 n1 =
            (Inr EXIT_SUCCESS,
             events s @ (if report_identical_files C \<and> \<not> DIR_P s 0
                         then [Message (''Files '' @ label0 (main_flags C) s @ '' and ''
                                        @ label1 (main_flags C) s @ '' are identical'' @ NL)]
                         else []))
          \<and> list_all resolution_event (events s))
     \<and> (classify (main_flags C) par s = Same_physical_file \<longrightarrow>
          (if output_style C = OUTPUT_IFDEF
           then (case group_format_UNCHANGED C of None \<Rightarrow> ''%='' | Some g \<Rightarrow> g) = []
                \<or> ((case group_format_UNCHANGED C of None \<Rightarrow> ''%='' | Some g \<Rightarrow> g) = ''%=''
                    \<and> (case line_format_UNCHANGED C of None \<Rightarrow> ''%l'' @ NL | Some l \<Rightarrow> l) = [])
           else output_style C \<noteq> OUTPUT_SDIFF \<or> suppress_common_lines C))"
proof -
  let ?C = "main_flags C"
  note inv = prepare_inv [OF assms(1)]
  have nf: "\<not> failed (f0 s)" "\<not> failed (f1 s)" using inv(2) assms(2) by simp_all
  have cl: "(classify ?C par s = Same_physical_file) =
      (same_files s \<and> no_diff_means_no_output ?C)"
    using assms(2) by (auto simp add: classify_def same_files_def)
  have sf: "same_files s =
       (present (f0 s) \<and> present (f1 s)
        \<and> 0 < same_file (stat (f0 s)) (stat (f1 s))
        \<and> same_file_attributes (stat (f0 s)) (stat (f1 s)))"
    using nf by (auto simp add: same_files_def present_def)
  have run: "classify ?C par s = Same_physical_file \<Longrightarrow>
      compare_files E ?C par n0 n1 =
        (Inr EXIT_SUCCESS,
         events s @ (if report_identical_files C \<and> \<not> DIR_P s 0
                     then [Message (''Files '' @ label0 ?C s @ '' and ''
                                    @ label1 ?C s @ '' are identical'' @ NL)]
                     else []))"
    using assms by (simp add: compare_files_def act_def finish_success)
  have ev: "list_all resolution_event (events s)" using inv(7) assms(2) by simp
  have fl: "classify ?C par s = Same_physical_file \<Longrightarrow> no_diff_means_no_output ?C"
    using cl by simp
  show ?thesis
    unfolding main_flags_no_diff [symmetric] using cl sf run ev fl by blast
qed

theorem same_physical_file_short_circuit_witness:
  "prepare ex_env (main_flags ex_options) None (Some ''a'') (Some ''a2'') =
     Inr \<lparr>f0 = \<lparr>desc = UNOPENED, name = ''a'', stat = ex_reg 10 3\<rparr>,
          f1 = \<lparr>desc = UNOPENED, name = ''a2'', stat = ex_reg 10 3\<rparr>,
          name0 = ''a'', status = EXIT_SUCCESS, events = [Stat ''a'', Stat ''a2'']\<rparr>
   \<and> classify (main_flags ex_options) None
        \<lparr>f0 = \<lparr>desc = UNOPENED, name = ''a'', stat = ex_reg 10 3\<rparr>,
         f1 = \<lparr>desc = UNOPENED, name = ''a2'', stat = ex_reg 10 3\<rparr>,
         name0 = ''a'', status = EXIT_SUCCESS, events = [Stat ''a'', Stat ''a2'']\<rparr>
       = Same_physical_file
   \<and> compare_files ex_env (main_flags ex_options) None (Some ''a'') (Some ''a2'') =
       (Inr EXIT_SUCCESS, [Stat ''a'', Stat ''a2''])"
proof -
  let ?s = "\<lparr>f0 = \<lparr>desc = UNOPENED, name = ''a'', stat = ex_reg 10 3\<rparr>,
          f1 = \<lparr>desc = UNOPENED, name = ''a2'', stat = ex_reg 10 3\<rparr>,
          name0 = ''a'', status = EXIT_SUCCESS, events = [Stat ''a'', Stat ''a2'']\<rparr>"
  have p: "prepare ex_env (main_flags ex_options) None (Some ''a'') (Some ''a2'') = Inr ?s"
    by code_simp
  have st: "status ?s = EXIT_SUCCESS" by simp
  have c: "present (f0 ?s) \<and> present (f1 ?s)
        \<and> 0 < same_file (stat (f0 ?s)) (stat (f1 ?s))
        \<and> same_file_attributes (stat (f0 ?s)) (stat (f1 ?s))
        \<and> no_diff_means_no_output (main_flags ex_options)"
    by code_simp
  have r: "\<not> report_identical_files ex_options" by code_simp
  note t = same_physical_file_short_circuit [OF p st]
  have taken: "classify (main_flags ex_options) None ?s = Same_physical_file"
    using t c by blast
  have out: "compare_files ex_env (main_flags ex_options) None (Some ''a'') (Some ''a2'') =
       (Inr EXIT_SUCCESS, [Stat ''a'', Stat ''a2''])"
    using t taken r by simp
  show ?thesis using p taken out by simp
qed

text \<open>
  The claim as stated asks for two regular files. A directory named twice is a pair of
  directories with one identity: the arm is taken, and nothing is read.
\<close>

theorem same_physical_file_counterexample:
  "prepare ex_env (main_flags ex_options) None (Some ''d'') (Some ''d/.'') =
     Inr \<lparr>f0 = \<lparr>desc = UNOPENED, name = ''d'', stat = ex_dir 20\<rparr>,
          f1 = \<lparr>desc = UNOPENED, name = ''d/.'', stat = ex_dir 20\<rparr>,
          name0 = ''d'', status = EXIT_SUCCESS, events = [Stat ''d'', Stat ''d/.'']\<rparr>
   \<and> classify (main_flags ex_options) None
        \<lparr>f0 = \<lparr>desc = UNOPENED, name = ''d'', stat = ex_dir 20\<rparr>,
         f1 = \<lparr>desc = UNOPENED, name = ''d/.'', stat = ex_dir 20\<rparr>,
         name0 = ''d'', status = EXIT_SUCCESS, events = [Stat ''d'', Stat ''d/.'']\<rparr>
       = Same_physical_file
   \<and> \<not> S_ISREG (st_mode (ex_dir 20))
   \<and> S_ISDIR (st_mode (ex_dir 20))
   \<and> compare_files ex_env (main_flags ex_options) None (Some ''d'') (Some ''d/.'') =
       (Inr EXIT_SUCCESS, [Stat ''d'', Stat ''d/.''])"
  by code_simp

subsection \<open>Two directories\<close>

text \<open>
  C7, as amended. For a pair whose two sides resolved, without error, to directories,
  and which is not cut short as one physical file (lines 1209-1217): under the output
  style of \<open>-D\<close> the run is ended by \<open>fatal\<close>; otherwise, if the pair has a parent and
  \<open>recursive\<close> is off, \<open>compare_files\<close> emits \<open>Common subdirectories: A and B\<close> and
  returns \<open>EXIT_SUCCESS\<close> without calling \<open>diff_dirs\<close>; otherwise it calls
  \<open>diff_dirs\<close> once and returns its status (after the flush of line 1373 when that
  status is not \<open>EXIT_SUCCESS\<close>; a failing flush, or an abort inside the walk, ends
  the process).
\<close>

theorem both_directories_arm:
  assumes "prepare E C par n0 n1 = Inr s"
    and "status s = EXIT_SUCCESS"
    and "present (f0 s)" and "present (f1 s)"
    and "DIR_P s 0" and "DIR_P s 1"
    and "\<not> (same_files s \<and> no_diff_means_no_output C)"
  shows
    "(output_style C = OUTPUT_IFDEF \<longrightarrow>
        compare_files E C par n0 n1 =
          (Inl (Fatal ''-D option not supported with directories''), events s))
     \<and> (output_style C \<noteq> OUTPUT_IFDEF \<and> par \<noteq> None \<and> \<not> recursive C \<longrightarrow>
        compare_files E C par n0 n1 =
          (Inr EXIT_SUCCESS,
           events s @ [Message (''Common subdirectories: '' @ name (f0 s) @ '' and ''
                                @ name (f1 s) @ NL)]))
     \<and> (output_style C \<noteq> OUTPUT_IFDEF \<and> \<not> (par \<noteq> None \<and> \<not> recursive C) \<longrightarrow>
        compare_files E C par n0 n1 =
          (case diff_dirs E (cmp_of par s) of
             Inl m \<Rightarrow> (Inl (Fatal m), events s @ [Diff_dirs (cmp_of par s)])
           | Inr st \<Rightarrow>
               (if st = 0 then (Inr EXIT_SUCCESS, events s @ [Diff_dirs (cmp_of par s)])
                else ((if sys_fflush_stdout E = None then Inr (int st)
                       else Inl (Fatal ''standard output'')),
                      events s @ [Diff_dirs (cmp_of par s), Fflush_stdout]))))"
proof -
  have ne: "\<not> (desc (f0 s) = NONEXISTENT \<and> desc (f1 s) = NONEXISTENT)"
    using assms(3) by (simp add: present_def)
  have cl: "classify C par s = Both_directories"
    using assms(2,5,6,7) ne by (simp add: classify_def)
  have a: "act E C par s = both_directories E C par s"
    by (simp add: act_def cl)
  have cf: "compare_files E C par n0 n1 =
      (case both_directories E C par s of Inl r \<Rightarrow> r | Inr s' \<Rightarrow> finish E C s')"
    by (simp add: compare_files_def assms(1) a)
  have d0: "DIR_P (emit es (s\<lparr>status := x\<rparr>)) 0" for es x
    using assms(5) by (simp add: DIR_P_simps)
  have d1: "DIR_P (emit es s) 0" for es
    using assms(5) by (simp add: DIR_P_simps)
  show ?thesis
    unfolding cf
    using assms(2) d0 d1
    by (auto simp add: both_directories_def call_diff_dirs_def finish_cases status_defs
        split: sum.splits)
qed

theorem both_directories_arm_witness:
  "prepare ex_env (main_flags ex_options) (Some ex_parent) (Some ''a'') (Some ''sub'') =
     Inr \<lparr>f0 = \<lparr>desc = UNOPENED, name = ''p/a'', stat = ex_dir 31\<rparr>,
          f1 = \<lparr>desc = UNOPENED, name = ''q/sub'', stat = ex_dir 30\<rparr>,
          name0 = ''a'', status = EXIT_SUCCESS, events = [Stat ''p/a'', Stat ''q/sub'']\<rparr>
   \<and> compare_files ex_env (main_flags ex_options) (Some ex_parent) (Some ''a'') (Some ''sub'') =
       (Inr EXIT_SUCCESS,
        [Stat ''p/a'', Stat ''q/sub'', Message (''Common subdirectories: p/a and q/sub'' @ NL)])
   \<and> compare_files ex_env (main_flags (ex_options\<lparr>recursive := True\<rparr>)) (Some ex_parent)
        (Some ''a'') (Some ''sub'') =
       (Inr 1,
        [Stat ''p/a'', Stat ''q/sub'',
         Diff_dirs (Comparison \<lparr>desc = UNOPENED, name = ''p/a'', stat = ex_dir 31\<rparr>
                               \<lparr>desc = UNOPENED, name = ''q/sub'', stat = ex_dir 30\<rparr>
                               (Some ex_parent)),
         Fflush_stdout])"
proof -
  let ?s = "\<lparr>f0 = \<lparr>desc = UNOPENED, name = ''p/a'', stat = ex_dir 31\<rparr>,
          f1 = \<lparr>desc = UNOPENED, name = ''q/sub'', stat = ex_dir 30\<rparr>,
          name0 = ''a'', status = EXIT_SUCCESS, events = [Stat ''p/a'', Stat ''q/sub'']\<rparr>"
  let ?C = "main_flags ex_options"
  let ?R = "main_flags (ex_options\<lparr>recursive := True\<rparr>)"
  have p: "prepare ex_env ?C (Some ex_parent) (Some ''a'') (Some ''sub'') = Inr ?s"
    by code_simp
  have q: "prepare ex_env ?R (Some ex_parent) (Some ''a'') (Some ''sub'') = Inr ?s"
    by code_simp
  have h: "status ?s = EXIT_SUCCESS" "present (f0 ?s)" "present (f1 ?s)" "DIR_P ?s 0" "DIR_P ?s 1"
    "\<not> (same_files ?s \<and> no_diff_means_no_output ?C)"
    "\<not> (same_files ?s \<and> no_diff_means_no_output ?R)"
    by code_simp+
  have c: "output_style ?C \<noteq> OUTPUT_IFDEF" "\<not> recursive ?C"
    "output_style ?R \<noteq> OUTPUT_IFDEF" "recursive ?R"
    "diff_dirs ex_env (cmp_of (Some ex_parent) ?s) = Inr 1" "sys_fflush_stdout ex_env = None"
    "name (f0 ?s) = ''p/a''" "name (f1 ?s) = ''q/sub''" "events ?s = [Stat ''p/a'', Stat ''q/sub'']"
    "cmp_of (Some ex_parent) ?s = Comparison \<lparr>desc = UNOPENED, name = ''p/a'', stat = ex_dir 31\<rparr>
                               \<lparr>desc = UNOPENED, name = ''q/sub'', stat = ex_dir 30\<rparr>
                               (Some ex_parent)"
    by code_simp+
  from both_directories_arm [OF p h(1) h(2) h(3) h(4) h(5) h(6)] c
  have one: "compare_files ex_env ?C (Some ex_parent) (Some ''a'') (Some ''sub'') =
       (Inr EXIT_SUCCESS,
        [Stat ''p/a'', Stat ''q/sub'', Message (''Common subdirectories: p/a and q/sub'' @ NL)])"
    by simp
  from both_directories_arm [OF q h(1) h(2) h(3) h(4) h(5) h(7)] c
  have two: "compare_files ex_env ?R (Some ex_parent) (Some ''a'') (Some ''sub'') =
       (Inr 1,
        [Stat ''p/a'', Stat ''q/sub'',
         Diff_dirs (Comparison \<lparr>desc = UNOPENED, name = ''p/a'', stat = ex_dir 31\<rparr>
                               \<lparr>desc = UNOPENED, name = ''q/sub'', stat = ex_dir 30\<rparr>
                               (Some ex_parent)),
         Fflush_stdout])"
    by simp
  show ?thesis using p one two by simp
qed

text \<open>
  The claim as stated covers every pair of directories. Below the pair \<open>p\<close>, \<open>q\<close>,
  the names \<open>p/sub\<close> and \<open>q/sub\<close> are one directory: without \<open>-r\<close> the call returns
  \<open>EXIT_SUCCESS\<close> and says nothing.
\<close>

theorem both_directories_counterexample:
  "prepare ex_env (main_flags ex_options) (Some ex_parent) (Some ''sub'') (Some ''sub'') =
     Inr \<lparr>f0 = \<lparr>desc = UNOPENED, name = ''p/sub'', stat = ex_dir 30\<rparr>,
          f1 = \<lparr>desc = UNOPENED, name = ''q/sub'', stat = ex_dir 30\<rparr>,
          name0 = ''sub'', status = EXIT_SUCCESS, events = [Stat ''p/sub'', Stat ''q/sub'']\<rparr>
   \<and> S_ISDIR (st_mode (ex_dir 30))
   \<and> \<not> recursive (main_flags ex_options)
   \<and> compare_files ex_env (main_flags ex_options) (Some ex_parent) (Some ''sub'') (Some ''sub'') =
       (Inr EXIT_SUCCESS, [Stat ''p/sub'', Stat ''q/sub''])"
  by code_simp

subsection \<open>Neither file exists\<close>

lemma not_dir_zero: "\<not> S_ISDIR 0"
  by (simp add: mode_defs)

lemma stat_file_0_unresolved:
  assumes "stat (f0 s) = zero_stat"
    and "desc (f0 s) = UNOPENED \<or> desc (f0 s) = NONEXISTENT"
  shows "no_dir_if_unresolved (f0 (stat_file E C 0 s))"
proof (cases "desc (f0 s) \<noteq> NONEXISTENT \<and> name (f0 s) = ''-''")
  case True
  have "no_dir_if_unresolved (f0 (stat_stdin E C 0 s))"
    using assms(1) mode_exclusive(1)
    by (auto simp add: stat_stdin_def Let_def no_dir_if_unresolved_def failed_def desc_defs
      zero_stat_def not_dir_zero split: sum.splits)
  then show ?thesis using True by (simp add: stat_file_def)
next
  case False
  then show ?thesis
    using assms
    by (auto simp add: stat_file_def Let_def no_dir_if_unresolved_def failed_def desc_defs
        zero_stat_def not_dir_zero split: sum.splits)
qed

lemma stat_file_1_unresolved:
  assumes "stat (f1 s) = zero_stat" and "no_dir_if_unresolved (f0 s)"
    and "desc (f1 s) = UNOPENED \<or> desc (f1 s) = NONEXISTENT"
  shows "no_dir_if_unresolved (f1 (stat_file E C (Suc 0) s))"
proof (cases "desc (f1 s) \<noteq> NONEXISTENT \<and> file_name_cmp (name (f1 s)) (name (f0 s)) \<noteq> 0
    \<and> name (f1 s) = ''-''")
  case True
  have "no_dir_if_unresolved (f1 (stat_stdin E C (Suc 0) s))"
    using assms(1) mode_exclusive(1)
    by (auto simp add: stat_stdin_def Let_def no_dir_if_unresolved_def failed_def desc_defs
      zero_stat_def not_dir_zero split: sum.splits)
  then show ?thesis using True by (auto simp add: stat_file_def Let_def)
next
  case False
  then show ?thesis
    using assms
    by (auto simp add: stat_file_def Let_def no_dir_if_unresolved_def failed_def desc_defs
        zero_stat_def not_dir_zero split: sum.splits if_splits)
qed

lemma mark_unresolved:
  "no_dir_if_unresolved (f0 s) \<Longrightarrow> no_dir_if_unresolved (f0 (mark_nonexistent C par 0 s))"
  "no_dir_if_unresolved (f1 s) \<Longrightarrow> no_dir_if_unresolved (f1 (mark_nonexistent C par (Suc 0) s))"
  using mode_exclusive(1)
  by (auto simp add: mark_nonexistent_def Let_def no_dir_if_unresolved_def failed_def desc_defs
      ENOENT_def EBADF_def split: if_splits)

lemma neither_exists_no_directory:
  assumes "compare_files_begin E C par n0 n1 = Inr s0"
    and "desc (f0 (stat_and_mark E C par s0)) = NONEXISTENT"
    and "desc (f1 (stat_and_mark E C par s0)) = NONEXISTENT"
  shows "\<not> DIR_P (stat_and_mark E C par s0) 0"
proof -
  have z: "stat (f0 s0) = zero_stat" "stat (f1 s0) = zero_stat"
    "desc (f0 s0) = UNOPENED \<or> desc (f0 s0) = NONEXISTENT"
    "desc (f1 s0) = UNOPENED \<or> desc (f1 s0) = NONEXISTENT"
    using assms(1)
    by (auto simp add: compare_files_begin_def start_def Let_def split: if_splits option.splits)
  let ?a = "stat_file E C 0 s0"
  let ?b = "stat_file E C (Suc 0) ?a"
  let ?c = "mark_nonexistent C par 0 ?b"
  let ?d = "mark_nonexistent C par (Suc 0) ?c"
  have a0: "no_dir_if_unresolved (f0 ?a)" using z(1) z(3) by (rule stat_file_0_unresolved)
  have b1: "no_dir_if_unresolved (f1 ?b)"
    using a0 z by (intro stat_file_1_unresolved) (simp_all add: stat_file_0)
  have b0: "no_dir_if_unresolved (f0 ?b)" using a0 by (simp add: stat_file_1)
  have c0: "no_dir_if_unresolved (f0 ?c)" using b0 by (rule mark_unresolved)
  have c1: "no_dir_if_unresolved (f1 ?c)" using b1 by (simp add: mark_0)
  have d1: "no_dir_if_unresolved (f1 ?d)" using c1 by (rule mark_unresolved)
  have t: "stat_and_mark E C par s0 = clear_nonexistent (Suc 0) (clear_nonexistent 0 ?d)"
    by (simp add: stat_and_mark_def)
  have "desc (f1 ?d) = NONEXISTENT" using assms(3) by (simp add: t clear_0 clear_1)
  then have nd: "\<not> S_ISDIR (st_mode (stat (f1 ?d)))"
    using d1 by (simp add: no_dir_if_unresolved_def)
  have "desc (f0 ?d) = NONEXISTENT" using assms(2) by (simp add: t clear_0 clear_1)
  then show ?thesis
    using nd by (simp add: t DIR_P_simps clear_0 clear_1 zero_stat_def)
qed

text \<open>
  C8, as amended. For a pair that reaches the chain of tests with both sides absent
  (both descriptors are \<open>NONEXISTENT\<close>), \<open>compare_files\<close> returns \<open>EXIT_SUCCESS\<close>;
  its trace holds the system calls of the resolution and no diagnostic, except the
  message \<open>Files A and B are identical\<close> when \<open>report_identical_files\<close> is set.
\<close>

theorem neither_side_exists:
  assumes "prepare E C par n0 n1 = Inr s"
    and "desc (f0 s) = NONEXISTENT" and "desc (f1 s) = NONEXISTENT"
  shows "compare_files E C par n0 n1 =
           (Inr EXIT_SUCCESS,
            events s @ (if report_identical_files C
                        then [Message (''Files '' @ label0 C s @ '' and '' @ label1 C s
                                       @ '' are identical'' @ NL)]
                        else []))
         \<and> list_all resolution_event (events s)"
proof -
  note inv = prepare_inv [OF assms(1)]
  have st: "status s = EXIT_SUCCESS" using inv(6) assms(2,3) by simp
  have ev: "list_all resolution_event (events s)" using inv(7) st by simp
  obtain s0 where b: "compare_files_begin E C par n0 n1 = Inr s0"
    and d: "dir_operand E C par (resolve E C par s0) = Inr s"
    using assms(1) by (rule prepare_Inr)
  let ?r = "resolve E C par s0"
  note rf = resolve_fields [of E C par s0]
  have same: "s = ?r"
  proof (rule ccontr)
    assume "s \<noteq> ?r"
    with dir_operand_cases [OF d]
    have c: "DIR_P ?r 0 \<noteq> DIR_P ?r 1" "desc (f0 ?r) = NONEXISTENT"
      using assms(2) by auto
    from stat_and_mark_absent_mode [of E C par s0] c(2)
    have "DIR_P ?r 0 = DIR_P ?r 1" by (simp add: rf DIR_P_simps)
    with c(1) show False by simp
  qed
  have nd: "\<not> DIR_P s 0"
    using neither_exists_no_directory [OF b] assms(2,3)
    by (simp add: same rf DIR_P_simps)
  have cl: "classify C par s = Neither_exists"
    using st assms(2,3) by (simp add: classify_def)
  have "compare_files E C par n0 n1 = finish E C s"
    by (simp add: compare_files_def assms(1) act_def cl)
  then show ?thesis using st nd ev by (simp add: finish_cases)
qed

theorem neither_side_exists_witness:
  "prepare ex_env (main_flags (ex_options\<lparr>new_file := True\<rparr>)) None (Some ''e0'') (Some ''e1'') =
     Inr \<lparr>f0 = \<lparr>desc = NONEXISTENT, name = ''e0'', stat = zero_stat\<lparr>st_mode := 0x8000\<rparr>\<rparr>,
          f1 = \<lparr>desc = NONEXISTENT, name = ''e1'', stat = zero_stat\<lparr>st_mode := 0x8000\<rparr>\<rparr>,
          name0 = ''e0'', status = EXIT_SUCCESS, events = [Stat ''e0'', Stat ''e1'']\<rparr>
   \<and> compare_files ex_env (main_flags (ex_options\<lparr>new_file := True\<rparr>)) None
        (Some ''e0'') (Some ''e1'') =
       (Inr EXIT_SUCCESS, [Stat ''e0'', Stat ''e1''])"
proof -
  let ?C = "main_flags (ex_options\<lparr>new_file := True\<rparr>)"
  let ?s = "\<lparr>f0 = \<lparr>desc = NONEXISTENT, name = ''e0'', stat = zero_stat\<lparr>st_mode := 0x8000\<rparr>\<rparr>,
          f1 = \<lparr>desc = NONEXISTENT, name = ''e1'', stat = zero_stat\<lparr>st_mode := 0x8000\<rparr>\<rparr>,
          name0 = ''e0'', status = EXIT_SUCCESS, events = [Stat ''e0'', Stat ''e1'']\<rparr>"
  have p: "prepare ex_env ?C None (Some ''e0'') (Some ''e1'') = Inr ?s"
    by code_simp
  have h: "desc (f0 ?s) = NONEXISTENT" "desc (f1 ?s) = NONEXISTENT" by simp_all
  have r: "\<not> report_identical_files ?C" by code_simp
  from neither_side_exists [OF p h] r p show ?thesis by simp
qed

text \<open>
  The claim as stated allows no message at all. With \<open>-N\<close> and \<open>-s\<close>, two inaccessible
  empty regular files are both marked as nonexistent, and the report of line 1367 is
  printed.
\<close>

theorem neither_side_exists_counterexample:
  "prepare ex_env (main_flags (ex_options\<lparr>new_file := True, report_identical_files := True\<rparr>))
     None (Some ''e0'') (Some ''e1'') =
     Inr \<lparr>f0 = \<lparr>desc = NONEXISTENT, name = ''e0'', stat = zero_stat\<lparr>st_mode := 0x8000\<rparr>\<rparr>,
          f1 = \<lparr>desc = NONEXISTENT, name = ''e1'', stat = zero_stat\<lparr>st_mode := 0x8000\<rparr>\<rparr>,
          name0 = ''e0'', status = EXIT_SUCCESS, events = [Stat ''e0'', Stat ''e1'']\<rparr>
   \<and> compare_files ex_env
        (main_flags (ex_options\<lparr>new_file := True, report_identical_files := True\<rparr>))
        None (Some ''e0'') (Some ''e1'') =
       (Inr EXIT_SUCCESS,
        [Stat ''e0'', Stat ''e1'', Message (''Files e0 and e1 are identical'' @ NL)])"
  by code_simp

subsection \<open>One name on both sides\<close>

lemma same_name_copy:
  assumes "desc (f1 s) \<noteq> NONEXISTENT" and "name (f1 s) = name (f0 s)"
  shows "stat_file E C (Suc 0) s = s\<lparr>f1 := (f1 s)\<lparr>desc := desc (f0 s), stat := stat (f0 s)\<rparr>\<rparr>"
  using assms by (simp add: stat_file_def Let_def file_name_cmp_def)

lemma failed_not_marked:
  assumes "failed (f0 s)" and "desc (f1 s) = desc (f0 s)"
  shows "mark_nonexistent C par (Suc 0) (mark_nonexistent C par 0 s) = s"
  using assms
  by (auto simp add: mark_nonexistent_def Let_def failed_def desc_defs)

lemma failed_not_cleared:
  assumes "failed (f0 s)" and "desc (f1 s) = desc (f0 s)"
  shows "clear_nonexistent (Suc 0) (clear_nonexistent 0 s) = s"
  using assms
  by (auto simp add: clear_nonexistent_def Let_def failed_def desc_defs)

text \<open>
  C9, as amended. When the right-hand name is given and is textually equal to the
  left-hand name, the second turn of the loop of lines 1115-1146 copies the descriptor
  and the metadata of the left slot into the right slot and makes no system call of its
  own: the trace is the one the first turn left. An error of that one resolution is
  nevertheless reported once for each slot by the loop of lines 1172-1179, that is
  twice.
\<close>

theorem same_name_resolved_once:
  assumes "compare_files_begin E C par n0 n1 = Inr s0"
    and "desc (f1 s0) \<noteq> NONEXISTENT"
    and "name (f1 s0) = name (f0 s0)"
  shows
    "stat_file E C 1 (stat_file E C 0 s0) =
       (stat_file E C 0 s0)
         \<lparr>f1 := (f1 s0)\<lparr>desc := desc (f0 (stat_file E C 0 s0)),
                         stat := stat (f0 (stat_file E C 0 s0))\<rparr>\<rparr>
     \<and> events (stat_file E C 1 (stat_file E C 0 s0)) = events (stat_file E C 0 s0)
     \<and> (failed (f0 (stat_file E C 0 s0)) \<longrightarrow>
          snd (compare_files E C par n0 n1) =
            events (stat_file E C 0 s0)
            @ [Perror_with_name (name (f0 s0))
                 (nat (ERRNO_DECODE (desc (f0 (stat_file E C 0 s0))))),
               Perror_with_name (name (f0 s0))
                 (nat (ERRNO_DECODE (desc (f0 (stat_file E C 0 s0))))),
               Fflush_stdout])"
proof -
  let ?a = "stat_file E C 0 s0"
  let ?b = "stat_file E C (Suc 0) ?a"
  have a1: "f1 ?a = f1 s0" by (simp add: stat_file_0)
  have an: "name (f0 ?a) = name (f0 s0)" by (simp add: stat_file_0)
  have cp: "?b = ?a\<lparr>f1 := (f1 s0)\<lparr>desc := desc (f0 ?a), stat := stat (f0 ?a)\<rparr>\<rparr>"
    using same_name_copy [of ?a E C] assms(2,3) by (simp add: a1 an)
  have ev: "events ?b = events ?a" by (simp add: cp)
  have tr: "snd (compare_files E C par n0 n1) =
      events ?a @ [Perror_with_name (name (f0 s0)) (nat (ERRNO_DECODE (desc (f0 ?a)))),
                   Perror_with_name (name (f0 s0)) (nat (ERRNO_DECODE (desc (f0 ?a)))),
                   Fflush_stdout]"
    if f: "failed (f0 ?a)"
  proof -
    have fb: "failed (f0 ?b)" "desc (f1 ?b) = desc (f0 ?b)" using f by (simp_all add: cp)
    have t: "stat_and_mark E C par s0 = ?b"
      by (simp add: stat_and_mark_def failed_not_marked [OF fb] failed_not_cleared [OF fb])
    have f1: "failed (f1 ?b)" using fb by (simp add: failed_def)
    have "failed (f0 (stat_and_mark E C par s0)) \<or> failed (f1 (stat_and_mark E C par s0))"
      using fb(1) by (simp add: t)
    from trouble_trace [OF assms(1) this] show ?thesis
      using fb f1 assms(3) by (simp add: t error_report_def ev) (simp add: cp an)
  qed
  show ?thesis using cp ev tr by simp
qed

theorem same_name_resolved_once_witness:
  "compare_files_begin ex_env (main_flags ex_options) None (Some ''x'') (Some ''x'') =
     Inr \<lparr>f0 = \<lparr>desc = UNOPENED, name = ''x'', stat = zero_stat\<rparr>,
          f1 = \<lparr>desc = UNOPENED, name = ''x'', stat = zero_stat\<rparr>,
          name0 = ''x'', status = EXIT_SUCCESS, events = []\<rparr>
   \<and> stat_file ex_env (main_flags ex_options) 1
        (stat_file ex_env (main_flags ex_options) 0
          \<lparr>f0 = \<lparr>desc = UNOPENED, name = ''x'', stat = zero_stat\<rparr>,
           f1 = \<lparr>desc = UNOPENED, name = ''x'', stat = zero_stat\<rparr>,
           name0 = ''x'', status = EXIT_SUCCESS, events = []\<rparr>) =
       \<lparr>f0 = \<lparr>desc = ERRNO_ENCODE ENOENT, name = ''x'', stat = zero_stat\<rparr>,
        f1 = \<lparr>desc = ERRNO_ENCODE ENOENT, name = ''x'', stat = zero_stat\<rparr>,
        name0 = ''x'', status = EXIT_SUCCESS, events = [Stat ''x'']\<rparr>
   \<and> snd (compare_files ex_env (main_flags ex_options) None (Some ''x'') (Some ''x'')) =
       [Stat ''x'', Perror_with_name ''x'' ENOENT, Perror_with_name ''x'' ENOENT,
        Fflush_stdout]"
proof -
  let ?C = "main_flags ex_options"
  let ?s0 = "\<lparr>f0 = \<lparr>desc = UNOPENED, name = ''x'', stat = zero_stat\<rparr>,
          f1 = \<lparr>desc = UNOPENED, name = ''x'', stat = zero_stat\<rparr>,
          name0 = ''x'', status = EXIT_SUCCESS, events = []\<rparr>"
  have b: "compare_files_begin ex_env ?C None (Some ''x'') (Some ''x'') = Inr ?s0"
    by code_simp
  have h: "desc (f1 ?s0) \<noteq> NONEXISTENT" "name (f1 ?s0) = name (f0 ?s0)" by code_simp+
  have a: "stat_file ex_env ?C 0 ?s0 =
      \<lparr>f0 = \<lparr>desc = ERRNO_ENCODE ENOENT, name = ''x'', stat = zero_stat\<rparr>,
       f1 = \<lparr>desc = UNOPENED, name = ''x'', stat = zero_stat\<rparr>,
       name0 = ''x'', status = EXIT_SUCCESS, events = [Stat ''x'']\<rparr>"
    by code_simp
  have f: "failed \<lparr>desc = ERRNO_ENCODE ENOENT, name = ''x'', stat = zero_stat\<rparr>"
    "nat (ERRNO_DECODE (ERRNO_ENCODE ENOENT)) = ENOENT"
    by code_simp+
  from same_name_resolved_once [OF b h] a f b show ?thesis by simp
qed

text \<open>
  The claim as stated concludes that the error is reported once. For \<open>diff x x\<close>
  with no file \<open>x\<close>, one \<open>stat\<close> is followed by two reports.
\<close>

theorem same_name_reported_twice_counterexample:
  "compare_files ex_env (main_flags ex_options) None (Some ''x'') (Some ''x'') =
     (Inr EXIT_TROUBLE,
      [Stat ''x'', Perror_with_name ''x'' ENOENT, Perror_with_name ''x'' ENOENT,
       Fflush_stdout])
   \<and> length (filter (\<lambda>e. e = Perror_with_name ''x'' ENOENT)
        (snd (compare_files ex_env (main_flags ex_options) None (Some ''x'') (Some ''x'')))) = 2"
  by code_simp

subsection \<open>Symbolic links\<close>

lemma lnk_not_dir: "S_ISLNK (st_mode (stat (f0 s))) \<Longrightarrow> \<not> DIR_P s 0"
  "S_ISLNK (st_mode (stat (f1 s))) \<Longrightarrow> \<not> DIR_P s (Suc 0)"
  using mode_exclusive(3) by (auto simp add: DIR_P_simps)

lemma type_mismatch_fields:
  "status (type_mismatch E C s) = EXIT_FAILURE"
  "events (type_mismatch E C s) =
     events s @ [Message (''File '' @ label0 C s @ '' is a '' @ file_type E (stat (f0 s))
                          @ '' while file '' @ label1 C s @ '' is a ''
                          @ file_type E (stat (f1 s)) @ NL)]"
  by (simp_all add: type_mismatch_def)

lemma label_emit [simp]:
  "label0 C (emit es s) = label0 C s" "label1 C (emit es s) = label1 C s"
  "label0 C (s\<lparr>status := x\<rparr>) = label0 C s" "label1 C (s\<lparr>status := x\<rparr>) = label1 C s"
  "DIR_P (emit es s) f = DIR_P s f" "DIR_P (s\<lparr>status := x\<rparr>) f = DIR_P s f"
  by (simp_all add: label0_def label1_def DIR_P_def cmp_file_def emit_def split: option.splits)

text \<open>
  C5, as amended. Link-following is disabled, the pair resolved without error and both
  sides are present. If both are symbolic links, and the pair is not cut short as one
  physical file (lines 1209-1217, where nothing is read), \<open>compare_files\<close> reads the
  left link and then the right one; a failing \<open>xreadlink\<close> is reported, ends the
  reading and gives \<open>EXIT_TROUBLE\<close>. Equal targets give \<open>EXIT_SUCCESS\<close> and no message
  but the report \<open>Files A and B are identical\<close> when \<open>report_identical_files\<close> is set;
  unequal targets give the message \<open>Symbolic links A and B differ\<close> and
  \<open>EXIT_FAILURE\<close>. If exactly one side is a symbolic link, the message
  \<open>File A is a ... while file B is a ...\<close> is emitted and the status is
  \<open>EXIT_FAILURE\<close>. A status other than \<open>EXIT_SUCCESS\<close> is returned after the flush
  of line 1373, whose failure is fatal.
\<close>

theorem symbolic_links_compared:
  assumes "prepare E C par n0 n1 = Inr s"
    and "status s = EXIT_SUCCESS"
    and "present (f0 s)" and "present (f1 s)"
    and "no_dereference_symlinks C"
  shows
    "(S_ISLNK (st_mode (stat (f0 s))) \<and> S_ISLNK (st_mode (stat (f1 s)))
      \<and> \<not> (same_files s \<and> no_diff_means_no_output C) \<longrightarrow>
        compare_files E C par n0 n1 =
          (case xreadlink E (name (f0 s)) of
             Inl e \<Rightarrow>
               ((if sys_fflush_stdout E = None then Inr EXIT_TROUBLE
                 else Inl (Fatal ''standard output'')),
                events s @ [Xreadlink (name (f0 s)), Perror_with_name (name (f0 s)) e,
                            Fflush_stdout])
           | Inr v0 \<Rightarrow>
               (case xreadlink E (name (f1 s)) of
                  Inl e \<Rightarrow>
                    ((if sys_fflush_stdout E = None then Inr EXIT_TROUBLE
                      else Inl (Fatal ''standard output'')),
                     events s @ [Xreadlink (name (f0 s)), Xreadlink (name (f1 s)),
                                 Perror_with_name (name (f1 s)) e, Fflush_stdout])
                | Inr v1 \<Rightarrow>
                    (if v0 = v1
                     then (Inr EXIT_SUCCESS,
                           events s @ [Xreadlink (name (f0 s)), Xreadlink (name (f1 s))]
                           @ (if report_identical_files C
                              then [Message (''Files '' @ label0 C s @ '' and ''
                                             @ label1 C s @ '' are identical'' @ NL)]
                              else []))
                     else ((if sys_fflush_stdout E = None then Inr EXIT_FAILURE
                            else Inl (Fatal ''standard output'')),
                           events s @ [Xreadlink (name (f0 s)), Xreadlink (name (f1 s)),
                                       Message (''Symbolic links '' @ name (f0 s) @ '' and ''
                                                @ name (f1 s) @ '' differ'' @ NL),
                                       Fflush_stdout])))))
     \<and> (S_ISLNK (st_mode (stat (f0 s))) \<noteq> S_ISLNK (st_mode (stat (f1 s))) \<longrightarrow>
        compare_files E C par n0 n1 =
          ((if sys_fflush_stdout E = None then Inr EXIT_FAILURE
            else Inl (Fatal ''standard output'')),
           events s @ [Message (''File '' @ label0 C s @ '' is a ''
                                @ file_type E (stat (f0 s)) @ '' while file ''
                                @ label1 C s @ '' is a '' @ file_type E (stat (f1 s)) @ NL),
                       Fflush_stdout]))"
proof -
  have ne: "desc (f0 s) \<noteq> NONEXISTENT" "desc (f1 s) \<noteq> NONEXISTENT"
    using assms(3,4) by (simp_all add: present_def)
  have cf: "compare_files E C par n0 n1 =
      (case act E C par s of Inl r \<Rightarrow> r | Inr s' \<Rightarrow> finish E C s')"
    by (simp add: compare_files_def assms(1))
  have both: "compare_files E C par n0 n1 =
          (case xreadlink E (name (f0 s)) of
             Inl e \<Rightarrow>
               ((if sys_fflush_stdout E = None then Inr EXIT_TROUBLE
                 else Inl (Fatal ''standard output'')),
                events s @ [Xreadlink (name (f0 s)), Perror_with_name (name (f0 s)) e,
                            Fflush_stdout])
           | Inr v0 \<Rightarrow>
               (case xreadlink E (name (f1 s)) of
                  Inl e \<Rightarrow>
                    ((if sys_fflush_stdout E = None then Inr EXIT_TROUBLE
                      else Inl (Fatal ''standard output'')),
                     events s @ [Xreadlink (name (f0 s)), Xreadlink (name (f1 s)),
                                 Perror_with_name (name (f1 s)) e, Fflush_stdout])
                | Inr v1 \<Rightarrow>
                    (if v0 = v1
                     then (Inr EXIT_SUCCESS,
                           events s @ [Xreadlink (name (f0 s)), Xreadlink (name (f1 s))]
                           @ (if report_identical_files C
                              then [Message (''Files '' @ label0 C s @ '' and ''
                                             @ label1 C s @ '' are identical'' @ NL)]
                              else []))
                     else ((if sys_fflush_stdout E = None then Inr EXIT_FAILURE
                            else Inl (Fatal ''standard output'')),
                           events s @ [Xreadlink (name (f0 s)), Xreadlink (name (f1 s)),
                                       Message (''Symbolic links '' @ name (f0 s) @ '' and ''
                                                @ name (f1 s) @ '' differ'' @ NL),
                                       Fflush_stdout]))))"
    if l: "S_ISLNK (st_mode (stat (f0 s)))" "S_ISLNK (st_mode (stat (f1 s)))"
      and sf: "\<not> (same_files s \<and> no_diff_means_no_output C)"
  proof -
    have nd: "\<not> DIR_P s 0" "\<not> DIR_P s (Suc 0)" using l by (simp_all add: lnk_not_dir)
    have rl: "regular_or_link s 0" "regular_or_link s (Suc 0)"
      using l by (simp_all add: regular_or_link_def)
    have cl: "classify C par s = Symbolic_link"
      using assms(2) ne sf nd rl l by (simp add: classify_def)
    have a: "act E C par s = symbolic_link E C s" by (simp add: act_def cl)
    show ?thesis
      unfolding cf a
      using assms(2,5) l nd
      by (auto simp add: symbolic_link_def finish_cases status_defs split: sum.splits)
  qed
  have one: "compare_files E C par n0 n1 =
          ((if sys_fflush_stdout E = None then Inr EXIT_FAILURE
            else Inl (Fatal ''standard output'')),
           events s @ [Message (''File '' @ label0 C s @ '' is a ''
                                @ file_type E (stat (f0 s)) @ '' while file ''
                                @ label1 C s @ '' is a '' @ file_type E (stat (f1 s)) @ NL),
                       Fflush_stdout])"
    if l: "S_ISLNK (st_mode (stat (f0 s))) \<noteq> S_ISLNK (st_mode (stat (f1 s)))"
  proof -
    have md: "st_mode (stat (f0 s)) \<noteq> st_mode (stat (f1 s))" using l by auto
    have sf: "\<not> same_files s"
      using md by (simp add: same_files_def same_file_attributes_def)
    have nb: "\<not> (DIR_P s 0 \<and> DIR_P s (Suc 0))"
      using l lnk_not_dir [of s] by auto
    have lk: "S_ISLNK (st_mode (stat (f0 s))) \<or> S_ISLNK (st_mode (stat (f1 s)))"
      using l by auto
    have fin: "finish E C (type_mismatch E C s) =
        ((if sys_fflush_stdout E = None then Inr EXIT_FAILURE
            else Inl (Fatal ''standard output'')),
           events s @ [Message (''File '' @ label0 C s @ '' is a ''
                                @ file_type E (stat (f0 s)) @ '' while file ''
                                @ label1 C s @ '' is a '' @ file_type E (stat (f1 s)) @ NL),
                       Fflush_stdout])"
      by (simp add: finish_cases type_mismatch_fields status_defs)
    have "classify C par s = Not_comparable \<or> classify C par s = Symbolic_link"
      using assms(2) ne sf nb lk by (simp add: classify_def)
    then show ?thesis
    proof
      assume "classify C par s = Not_comparable"
      then have "act E C par s = Inr (type_mismatch E C s)"
        using ne by (simp add: act_def not_comparable_def)
      then show ?thesis by (simp add: cf fin)
    next
      assume "classify C par s = Symbolic_link"
      then have "act E C par s = Inr (type_mismatch E C s)"
        using assms(5) l by (auto simp add: act_def symbolic_link_def)
      then show ?thesis by (simp add: cf fin)
    qed
  qed
  show ?thesis using both one by blast
qed

theorem symbolic_links_compared_witness:
  "compare_files ex_env (main_flags (ex_options\<lparr>no_dereference_symlinks := True\<rparr>)) None
     (Some ''l1'') (Some ''l2'') =
     (Inr EXIT_SUCCESS, [Lstat ''l1'', Lstat ''l2'', Xreadlink ''l1'', Xreadlink ''l2''])
   \<and> compare_files ex_env (main_flags (ex_options\<lparr>no_dereference_symlinks := True\<rparr>)) None
     (Some ''l1'') (Some ''l3'') =
     (Inr EXIT_FAILURE,
      [Lstat ''l1'', Lstat ''l3'', Xreadlink ''l1'', Xreadlink ''l3'',
       Message (''Symbolic links l1 and l3 differ'' @ NL), Fflush_stdout])
   \<and> compare_files ex_env (main_flags (ex_options\<lparr>no_dereference_symlinks := True\<rparr>)) None
     (Some ''l1'') (Some ''a'') =
     (Inr EXIT_FAILURE,
      [Lstat ''l1'', Lstat ''a'',
       Message (''File l1 is a symbolic link while file a is a regular file'' @ NL),
       Fflush_stdout])"
proof -
  let ?C = "main_flags (ex_options\<lparr>no_dereference_symlinks := True\<rparr>)"
  let ?s = "\<lparr>f0 = \<lparr>desc = UNOPENED, name = ''l1'', stat = ex_lnk 50\<rparr>,
          f1 = \<lparr>desc = UNOPENED, name = ''l2'', stat = ex_lnk 51\<rparr>,
          name0 = ''l1'', status = EXIT_SUCCESS, events = [Lstat ''l1'', Lstat ''l2'']\<rparr>"
  let ?t = "\<lparr>f0 = \<lparr>desc = UNOPENED, name = ''l1'', stat = ex_lnk 50\<rparr>,
          f1 = \<lparr>desc = UNOPENED, name = ''l3'', stat = ex_lnk 52\<rparr>,
          name0 = ''l1'', status = EXIT_SUCCESS, events = [Lstat ''l1'', Lstat ''l3'']\<rparr>"
  let ?u = "\<lparr>f0 = \<lparr>desc = UNOPENED, name = ''l1'', stat = ex_lnk 50\<rparr>,
          f1 = \<lparr>desc = UNOPENED, name = ''a'', stat = ex_reg 10 3\<rparr>,
          name0 = ''l1'', status = EXIT_SUCCESS, events = [Lstat ''l1'', Lstat ''a'']\<rparr>"
  have p: "prepare ex_env ?C None (Some ''l1'') (Some ''l2'') = Inr ?s"
    "prepare ex_env ?C None (Some ''l1'') (Some ''l3'') = Inr ?t"
    "prepare ex_env ?C None (Some ''l1'') (Some ''a'') = Inr ?u"
    by code_simp+
  have hs: "status ?s = EXIT_SUCCESS" "present (f0 ?s)" "present (f1 ?s)"
    and ht: "status ?t = EXIT_SUCCESS" "present (f0 ?t)" "present (f1 ?t)"
    and hu: "status ?u = EXIT_SUCCESS" "present (f0 ?u)" "present (f1 ?u)"
    and nd: "no_dereference_symlinks ?C"
    by code_simp+
  have ls: "S_ISLNK (st_mode (stat (f0 ?s))) \<and> S_ISLNK (st_mode (stat (f1 ?s)))
      \<and> \<not> (same_files ?s \<and> no_diff_means_no_output ?C)"
    and lt: "S_ISLNK (st_mode (stat (f0 ?t))) \<and> S_ISLNK (st_mode (stat (f1 ?t)))
      \<and> \<not> (same_files ?t \<and> no_diff_means_no_output ?C)"
    and lu: "S_ISLNK (st_mode (stat (f0 ?u))) \<noteq> S_ISLNK (st_mode (stat (f1 ?u)))"
    by code_simp+
  have v: "xreadlink ex_env ''l1'' = Inr ''/tmp/foo''" "xreadlink ex_env ''l2'' = Inr ''/tmp/foo''"
    "xreadlink ex_env ''l3'' = Inr ''/tmp/bar''" "sys_fflush_stdout ex_env = None"
    "\<not> report_identical_files ?C"
    "label0 ?C ?u = ''l1''" "label1 ?C ?u = ''a''"
    "file_type ex_env (ex_lnk 50) = ''symbolic link''"
    "file_type ex_env (ex_reg 10 3) = ''regular file''"
    by code_simp+
  from symbolic_links_compared [OF p(1) hs nd] ls v
  have one: "compare_files ex_env ?C None (Some ''l1'') (Some ''l2'') =
     (Inr EXIT_SUCCESS, [Lstat ''l1'', Lstat ''l2'', Xreadlink ''l1'', Xreadlink ''l2''])"
    by simp
  from symbolic_links_compared [OF p(2) ht nd] lt v
  have two: "compare_files ex_env ?C None (Some ''l1'') (Some ''l3'') =
     (Inr EXIT_FAILURE,
      [Lstat ''l1'', Lstat ''l3'', Xreadlink ''l1'', Xreadlink ''l3'',
       Message (''Symbolic links l1 and l3 differ'' @ NL), Fflush_stdout])"
    by simp
  from symbolic_links_compared [OF p(3) hu nd] lu v
  have three: "compare_files ex_env ?C None (Some ''l1'') (Some ''a'') =
     (Inr EXIT_FAILURE,
      [Lstat ''l1'', Lstat ''a'',
       Message (''File l1 is a symbolic link while file a is a regular file'' @ NL),
       Fflush_stdout])"
    by simp
  show ?thesis using one two three by simp
qed

text \<open>
  The claim as stated has equal targets give no message, and has both links read.
  Under \<open>-s\<close> two links to one target are reported as identical; and one link named
  twice is the same physical file, so that no link is read.
\<close>

theorem symbolic_links_counterexample:
  "xreadlink ex_env ''l1'' = xreadlink ex_env ''l2''
   \<and> compare_files ex_env
        (main_flags (ex_options\<lparr>no_dereference_symlinks := True,
                                 report_identical_files := True\<rparr>))
        None (Some ''l1'') (Some ''l2'') =
       (Inr EXIT_SUCCESS,
        [Lstat ''l1'', Lstat ''l2'', Xreadlink ''l1'', Xreadlink ''l2'',
         Message (''Files l1 and l2 are identical'' @ NL)])
   \<and> compare_files ex_env (main_flags (ex_options\<lparr>no_dereference_symlinks := True\<rparr>))
        None (Some ''l1'') (Some ''l1'') =
       (Inr EXIT_SUCCESS, [Lstat ''l1''])"
  by code_simp

subsection \<open>The exit status\<close>











end
